theory Spec2Isabelle
  imports Main
begin

section \<open>Errors\<close>

text \<open>
  The exceptions of \<^verbatim>\<open>src/errors.ts\<close>, together with the errors raised by the
  platform: a filesystem error carries its code (\<^verbatim>\<open>ENOENT\<close>, \<^verbatim>\<open>EISDIR\<close>, ...),
  \<^verbatim>\<open>JSON.parse\<close> raises a syntax error, and the subsetting engine raises an
  error of its own.  Every \<^verbatim>\<open>throw\<close> of the source is an \<open>Inl\<close> of the model.
\<close>

datatype exn =
    ValidationError string string
  | UnsupportedFormatError string
  | InvalidFontError string
  | FontOptimizationError string
  | SystemError string
  | SyntaxError
  | EngineError string
  | TypeError

fun message :: "exn \<Rightarrow> string" where
  "message (ValidationError m f) = m"
| "message (UnsupportedFormatError m) = m"
| "message (InvalidFontError m) = m"
| "message (FontOptimizationError m) = m"
| "message (SystemError c) = c"
| "message SyntaxError = ''Unexpected token''"
| "message (EngineError m) = m"
| "message TypeError = ''undefined is not iterable''"

section \<open>Paths\<close>

text \<open>
  A path is the string that spells it: two spellings of one file are two paths here, so
  the model covers paths that are already normalised (\<^verbatim>\<open>path.join\<close> is then
  concatenation with a separator).  \<^verbatim>\<open>path.basename\<close> and \<^verbatim>\<open>path.extname\<close>
  look at the portion after the last separator; an extension starts at the last dot of
  that portion, unless the only dot is its first character.  \<open>basename_ext\<close> is
  \<^verbatim>\<open>path.basename\<close> with its second argument, which the program always takes from
  \<^verbatim>\<open>path.extname\<close>.  \<open>dirname\<close> is \<open>None\<close> for a path directly under the
  root or the working directory, which always exist.  Characters are bytes, and
  \<open>toLowerCase\<close> maps the ASCII capitals.
\<close>

definition sep :: char where
  "sep = CHR ''/''"

definition path_join :: "string \<Rightarrow> string \<Rightarrow> string" where
  "path_join d f = d @ [sep] @ f"

definition basename :: "string \<Rightarrow> string" where
  "basename p = rev (takeWhile (\<lambda>c. c \<noteq> sep) (rev p))"

definition extname :: "string \<Rightarrow> string" where
  "extname p =
     (let b = basename p;
          e = rev (takeWhile (\<lambda>c. c \<noteq> CHR ''.'') (rev b))
      in if CHR ''.'' \<notin> set b then []
         else if length e + 1 = length b then []
         else if b = ''..'' then []
         else CHR ''.'' # e)"

definition basename_ext :: "string \<Rightarrow> string \<Rightarrow> string" where
  "basename_ext p ext =
     (let b = basename p
      in if ext \<noteq> [] \<and> length ext < length b \<and> drop (length b - length ext) b = ext
         then take (length b - length ext) b else b)"

definition dirname :: "string \<Rightarrow> string option" where
  "dirname p =
     (let d = rev (drop 1 (dropWhile (\<lambda>c. c \<noteq> sep) (rev p)))
      in if sep \<notin> set p \<or> d = [] then None else Some d)"

definition endsWith :: "string \<Rightarrow> string \<Rightarrow> bool" where
  "endsWith s suf = (length suf \<le> length s \<and> drop (length s - length suf) s = suf)"

definition lower_char :: "char \<Rightarrow> char" where
  "lower_char c =
     (let n = (of_char c :: nat)
      in if 65 \<le> n \<and> n \<le> 90 then char_of (n + 32) else c)"

definition toLowerCase :: "string \<Rightarrow> string" where
  "toLowerCase s = map lower_char s"

section \<open>The filesystem\<close>

text \<open>
  The filesystem is a table from paths to nodes.  Besides the failures that follow from
  the table (a missing file, a directory where a file is expected), any operation can
  fail on any path for reasons outside it (permissions, I/O errors): \<open>faulty\<close> says
  where.  The size of a file is the number of its bytes; that of a directory is the
  platform's, 4096 here.  \<^verbatim>\<open>readdir\<close> lists the names directly under a directory.
\<close>

datatype node = File string | Dir

datatype fsop = Access | Stat | ReadFile | WriteFile | Unlink | Readdir | Rmdir | Mkdir

record fsys =
  nodes :: "(string \<times> node) list"
  faulty :: "fsop \<Rightarrow> string \<Rightarrow> bool"

definition lookup :: "fsys \<Rightarrow> string \<Rightarrow> node option" where
  "lookup fs p = map_of (nodes fs) p"

definition remove :: "string \<Rightarrow> fsys \<Rightarrow> fsys" where
  "remove p fs = fs\<lparr>nodes := filter (\<lambda>(q, n). q \<noteq> p) (nodes fs)\<rparr>"

definition store :: "string \<Rightarrow> node \<Rightarrow> fsys \<Rightarrow> fsys" where
  "store p n fs = fs\<lparr>nodes := (p, n) # filter (\<lambda>(q, n). q \<noteq> p) (nodes fs)\<rparr>"

definition is_child :: "string \<Rightarrow> string \<Rightarrow> bool" where
  "is_child d p =
     (length d + 1 < length p \<and> take (length d + 1) p = d @ [sep]
      \<and> sep \<notin> set (drop (length d + 1) p))"

definition children :: "fsys \<Rightarrow> string \<Rightarrow> string list" where
  "children fs d =
     remdups (map (\<lambda>(p, n). drop (length d + 1) p) (filter (\<lambda>(p, n). is_child d p) (nodes fs)))"

definition parent_ok :: "fsys \<Rightarrow> string \<Rightarrow> bool" where
  "parent_ok fs p = (case dirname p of None \<Rightarrow> True | Some d \<Rightarrow> lookup fs d = Some Dir)"

definition access :: "fsys \<Rightarrow> string \<Rightarrow> exn + unit" where
  "access fs p =
     (if faulty fs Access p then Inl (SystemError ''EACCES'')
      else case lookup fs p of None \<Rightarrow> Inl (SystemError ''ENOENT'') | Some n \<Rightarrow> Inr ())"

definition stat :: "fsys \<Rightarrow> string \<Rightarrow> exn + node" where
  "stat fs p =
     (if faulty fs Stat p then Inl (SystemError ''EACCES'')
      else case lookup fs p of None \<Rightarrow> Inl (SystemError ''ENOENT'') | Some n \<Rightarrow> Inr n)"

fun stat_size :: "node \<Rightarrow> int" where
  "stat_size (File b) = int (length b)"
| "stat_size Dir = 4096"

fun isFile :: "node \<Rightarrow> bool" where
  "isFile (File b) = True"
| "isFile Dir = False"

definition readFile :: "fsys \<Rightarrow> string \<Rightarrow> exn + string" where
  "readFile fs p =
     (if faulty fs ReadFile p then Inl (SystemError ''EACCES'')
      else case lookup fs p of
             None \<Rightarrow> Inl (SystemError ''ENOENT'')
           | Some Dir \<Rightarrow> Inl (SystemError ''EISDIR'')
           | Some (File b) \<Rightarrow> Inr b)"

definition writeFile :: "fsys \<Rightarrow> string \<Rightarrow> string \<Rightarrow> exn + fsys" where
  "writeFile fs p b =
     (if faulty fs WriteFile p then Inl (SystemError ''EACCES'')
      else if lookup fs p = Some Dir then Inl (SystemError ''EISDIR'')
      else if \<not> parent_ok fs p then Inl (SystemError ''ENOENT'')
      else Inr (store p (File b) fs))"

definition unlink :: "fsys \<Rightarrow> string \<Rightarrow> exn + fsys" where
  "unlink fs p =
     (if faulty fs Unlink p then Inl (SystemError ''EACCES'')
      else case lookup fs p of
             None \<Rightarrow> Inl (SystemError ''ENOENT'')
           | Some Dir \<Rightarrow> Inl (SystemError ''EISDIR'')
           | Some (File b) \<Rightarrow> Inr (remove p fs))"

definition readdir :: "fsys \<Rightarrow> string \<Rightarrow> exn + string list" where
  "readdir fs d =
     (if faulty fs Readdir d then Inl (SystemError ''EACCES'')
      else case lookup fs d of
             None \<Rightarrow> Inl (SystemError ''ENOENT'')
           | Some (File b) \<Rightarrow> Inl (SystemError ''ENOTDIR'')
           | Some Dir \<Rightarrow> Inr (children fs d))"


text \<open>
  \<^verbatim>\<open>fs.mkdir(p, {recursive: true})\<close> walks the prefixes of the path that end at a
  separator, then the path itself, and creates each directory that is missing.  It
  fails where a prefix is a file.
\<close>

definition dir_prefixes :: "string \<Rightarrow> string list" where
  "dir_prefixes p = map (\<lambda>i. take i p) (filter (\<lambda>i. p ! i = sep) [1..<length p]) @ [p]"

fun mkdir_walk :: "fsys \<Rightarrow> string list \<Rightarrow> exn + fsys" where
  "mkdir_walk fs [] = Inr fs"
| "mkdir_walk fs (q # qs) =
     (case lookup fs q of
        Some Dir \<Rightarrow> mkdir_walk fs qs
      | Some (File b) \<Rightarrow> Inl (SystemError (if qs = [] then ''EEXIST'' else ''ENOTDIR''))
      | None \<Rightarrow> mkdir_walk (store q Dir fs) qs)"

definition mkdir_recursive :: "fsys \<Rightarrow> string \<Rightarrow> exn + fsys" where
  "mkdir_recursive fs p =
     (if faulty fs Mkdir p then Inl (SystemError ''EACCES'')
      else if p = [] then Inl (SystemError ''ENOENT'')
      else mkdir_walk fs (dir_prefixes p))"

subsection \<open>\<^verbatim>\<open>src/utils/file.ts\<close>\<close>

definition fileExists :: "fsys \<Rightarrow> string \<Rightarrow> bool" where
  "fileExists fs p = (case access fs p of Inl e \<Rightarrow> False | Inr u \<Rightarrow> True)"

definition ensureDir :: "fsys \<Rightarrow> string \<Rightarrow> exn + fsys" where
  "ensureDir fs d =
     (case mkdir_recursive fs d of
        Inl e \<Rightarrow> (if e \<noteq> SystemError ''EEXIST'' then Inl e else Inr fs)
      | Inr fs' \<Rightarrow> Inr fs')"

definition writeFileBuffer :: "fsys \<Rightarrow> string \<Rightarrow> string \<Rightarrow> fsys \<times> (exn + unit)" where
  "writeFileBuffer fs p b =
     (case dirname p of
        None \<Rightarrow> (case writeFile fs p b of Inl e \<Rightarrow> (fs, Inl e) | Inr fs' \<Rightarrow> (fs', Inr ()))
      | Some d \<Rightarrow>
          (case ensureDir fs d of
             Inl e \<Rightarrow> (fs, Inl e)
           | Inr fs1 \<Rightarrow>
               (case writeFile fs1 p b of Inl e \<Rightarrow> (fs1, Inl e) | Inr fs2 \<Rightarrow> (fs2, Inr ()))))"

section \<open>Data model\<close>

text \<open>
  \<^verbatim>\<open>FontFileMetadata\<close> (\<^verbatim>\<open>src/utils/file.ts\<close>), \<^verbatim>\<open>OptimizationResult\<close>
  and \<^verbatim>\<open>OptimizationOptions\<close> (the optimizer), \<^verbatim>\<open>CacheEntry\<close>
  (\<^verbatim>\<open>src/utils/cache.ts\<close>) and the \<^verbatim>\<open>FontFaceOptions\<close> passed to the stylesheet
  generators.  Sizes, weights and timestamps are integers; an optional field is an
  \<open>option\<close>.  Records share field names as the interfaces do: the unqualified
  \<open>fontFamily\<close>, \<open>fontWeight\<close> and \<open>reduction\<close> are those of the result.
\<close>

record FontFaceOptions =
  fontFamily :: string
  fontPath :: string
  fontWeight :: int
  fontStyle :: "string option"
  fontDisplay :: string

record OptimizationOptions =
  inputPath :: string
  outputDir :: string
  fontFamily :: "string option"
  fontWeight :: "int option"
  fontStyle :: "string option"
  subsets :: "string list option"
  format :: "string option"
  fontDisplay :: "string option"
  useHash :: "bool option"
  cache :: "bool option"
  cacheDir :: "string option"

record CacheEntryResult =
  originalSize :: int
  optimizedSize :: int
  reduction :: string
  fontFamily :: string
  fontWeight :: int
  outputPath :: string
  cssContent :: string

record CacheEntry =
  inputHash :: string
  timestamp :: int
  version :: string
  result :: CacheEntryResult

record FontFileMetadata =
  path :: string
  name :: string
  extension :: string
  size' :: int
  sizeFormatted :: string

record OptimizationResult =
  original :: FontFileMetadata
  optimized :: FontFileMetadata
  reduction :: string
  css :: string
  fontFamily :: string
  fontWeight :: int

text \<open>
  A timestamp as JavaScript holds it: \<^verbatim>\<open>null\<close>, \<^verbatim>\<open>undefined\<close> (the property
  is absent) or a number.  In arithmetic and comparisons \<^verbatim>\<open>null\<close> counts as 0 and
  \<^verbatim>\<open>undefined\<close> as \<^verbatim>\<open>NaN\<close>, with which every comparison is false.  The
  entries that \<^verbatim>\<open>set\<close> writes carry an integer, \<^verbatim>\<open>Date.now()\<close>; timestamps of
  other JSON types (a string, a fraction) are not covered.
\<close>

datatype jsnumber = JsNull | JsUndefined | JsNumber int

fun toNumber :: "jsnumber \<Rightarrow> int option" where
  "toNumber JsNull = Some 0"
| "toNumber JsUndefined = None"
| "toNumber (JsNumber n) = Some n"

definition jsLess :: "jsnumber \<Rightarrow> jsnumber \<Rightarrow> bool" where
  "jsLess a b =
     (case toNumber a of None \<Rightarrow> False
      | Some x \<Rightarrow> (case toNumber b of None \<Rightarrow> False | Some y \<Rightarrow> x < y))"

text \<open>
  What the program takes from its platform and its collaborators: the MD5 digest in
  hexadecimal, \<^verbatim>\<open>path.resolve\<close>, the JSON codec, the floating-point renderings of
  sizes and percentages, the subsetting engine, and the stylesheet generators of
  \<^verbatim>\<open>utils/css\<close>.  \<open>JSON_parse\<close> is \<^verbatim>\<open>JSON.parse\<close> on the documents that hold
  a cache entry (\<^verbatim>\<open>get\<close> types the parsed value as a \<^verbatim>\<open>CacheEntry\<close>).
  \<open>JSON_timestamp\<close> is \<^verbatim>\<open>JSON.parse(data).timestamp\<close> on any text, which is all
  that \<^verbatim>\<open>getStats\<close> and \<^verbatim>\<open>cleanOld\<close> read of an entry: it throws when the text
  is not JSON or parses to \<^verbatim>\<open>null\<close>, and is \<^verbatim>\<open>undefined\<close> when the parsed value
  has no timestamp.
\<close>

record env =
  md5 :: "string \<Rightarrow> string"
  resolve :: "string \<Rightarrow> string"
  JSON_stringify :: "CacheEntry \<Rightarrow> string"
  JSON_parse :: "string \<Rightarrow> exn + CacheEntry"
  JSON_timestamp :: "string \<Rightarrow> exn + jsnumber"
  formatFileSize :: "int \<Rightarrow> string"
  toFixed1 :: "int \<Rightarrow> int \<Rightarrow> string"
  subsetFont :: "string \<Rightarrow> nat list \<Rightarrow> string \<Rightarrow> exn + string"
  generateFontFace :: "FontFaceOptions \<Rightarrow> string"
  generateCSSFile :: "FontFaceOptions list \<Rightarrow> string list \<Rightarrow> string"

section \<open>The result cache (\<^verbatim>\<open>src/utils/cache.ts\<close>)\<close>

text \<open>
  A \<^verbatim>\<open>FontCache\<close> object is its directory; the version string is a constant of the
  class.  The parameter \<^verbatim>\<open>inputPath\<close> of the methods is written \<open>inPath\<close>, and
  \<open>cachePathOf\<close> is the \<^verbatim>\<open>cachePath\<close> that \<^verbatim>\<open>get\<close>, \<^verbatim>\<open>set\<close> and
  \<^verbatim>\<open>delete\<close> compute alike.  Each public method is a total function here: its body
  runs inside a \<^verbatim>\<open>try\<close> whose \<^verbatim>\<open>catch\<close> returns a value.
\<close>

record FontCache =
  cacheDir :: string

definition cacheVersion :: string where
  "cacheVersion = ''1.0.0''"

definition getCacheKey :: "env \<Rightarrow> string \<Rightarrow> string" where
  "getCacheKey E filePath = md5 E (resolve E filePath)"

definition cachePathOf :: "env \<Rightarrow> FontCache \<Rightarrow> string \<Rightarrow> string" where
  "cachePathOf E c inPath = path_join (cacheDir c) (getCacheKey E inPath @ ''.json'')"

definition getFileHash :: "env \<Rightarrow> fsys \<Rightarrow> string \<Rightarrow> exn + string" where
  "getFileHash E fs filePath =
     (case readFile fs filePath of Inl e \<Rightarrow> Inl e | Inr buffer \<Rightarrow> Inr (md5 E buffer))"

definition entryToResult :: "env \<Rightarrow> fsys \<Rightarrow> CacheEntry \<Rightarrow> string \<Rightarrow> exn + OptimizationResult" where
  "entryToResult E fs entry inPath =
     (case stat fs inPath of
        Inl e \<Rightarrow> Inl e
      | Inr inputStats \<Rightarrow>
          (case stat fs (outputPath (result entry)) of
             Inl e \<Rightarrow> Inl e
           | Inr outputStats \<Rightarrow>
               Inr \<lparr> original =
                       \<lparr> path = inPath,
                         name = basename inPath,
                         extension = extname inPath,
                         size' = originalSize (result entry),
                         sizeFormatted = formatFileSize E (originalSize (result entry)) \<rparr>,
                     optimized =
                       \<lparr> path = outputPath (result entry),
                         name = basename (outputPath (result entry)),
                         extension = extname (outputPath (result entry)),
                         size' = optimizedSize (result entry),
                         sizeFormatted = formatFileSize E (optimizedSize (result entry)) \<rparr>,
                     reduction = CacheEntryResult.reduction (result entry),
                     css = cssContent (result entry),
                     fontFamily = CacheEntryResult.fontFamily (result entry),
                     fontWeight = CacheEntryResult.fontWeight (result entry) \<rparr>))"

definition delete :: "env \<Rightarrow> FontCache \<Rightarrow> fsys \<Rightarrow> string \<Rightarrow> fsys" where
  "delete E c fs inPath =
     (let cachePath = cachePathOf E c inPath
      in if fileExists fs cachePath
         then (case unlink fs cachePath of Inl e \<Rightarrow> fs | Inr fs' \<Rightarrow> fs')
         else fs)"

text \<open>
  The body of \<^verbatim>\<open>get\<close> inside its \<^verbatim>\<open>try\<close>: \<open>Inl\<close> is an exception on its way
  to the \<^verbatim>\<open>catch\<close>.  The filesystem changes only through \<open>delete\<close>, and each
  \<open>delete\<close> is followed by \<^verbatim>\<open>return null\<close>.
\<close>

definition get_body ::
  "env \<Rightarrow> FontCache \<Rightarrow> fsys \<Rightarrow> string \<Rightarrow> exn + (fsys \<times> OptimizationResult option)" where
  "get_body E c fs inPath =
     (let cachePath = cachePathOf E c inPath
      in if \<not> fileExists fs cachePath then Inr (fs, None)
         else (case readFile fs cachePath of
           Inl e \<Rightarrow> Inl e
         | Inr data \<Rightarrow>
             (case JSON_parse E data of
                Inl e \<Rightarrow> Inl e
              | Inr entry \<Rightarrow>
                  if version entry \<noteq> cacheVersion then Inr (delete E c fs inPath, None)
                  else (case getFileHash E fs inPath of
                    Inl e \<Rightarrow> Inl e
                  | Inr currentHash \<Rightarrow>
                      if inputHash entry \<noteq> currentHash
                      then Inr (delete E c fs inPath, None)
                      else if \<not> fileExists fs (outputPath (result entry))
                      then Inr (delete E c fs inPath, None)
                      else (case entryToResult E fs entry inPath of
                        Inl e \<Rightarrow> Inl e
                      | Inr r \<Rightarrow> Inr (fs, Some r))))))"

definition get :: "env \<Rightarrow> FontCache \<Rightarrow> fsys \<Rightarrow> string \<Rightarrow> fsys \<times> OptimizationResult option" where
  "get E c fs inPath =
     (case get_body E c fs inPath of Inl e \<Rightarrow> (fs, None) | Inr r \<Rightarrow> r)"

text \<open>
  \<^verbatim>\<open>set\<close>: the directory made by \<open>ensureDir\<close> stays when a later step throws.
  \<open>now\<close> is the value of \<^verbatim>\<open>Date.now()\<close>.
\<close>

definition makeEntry :: "string \<Rightarrow> int \<Rightarrow> OptimizationResult \<Rightarrow> CacheEntry" where
  "makeEntry h now r =
     \<lparr> inputHash = h,
       timestamp = now,
       version = cacheVersion,
       result =
         \<lparr> originalSize = size' (original r),
           optimizedSize = size' (optimized r),
           CacheEntryResult.reduction = reduction r,
           CacheEntryResult.fontFamily = fontFamily r,
           CacheEntryResult.fontWeight = fontWeight r,
           outputPath = path (optimized r),
           cssContent = css r \<rparr> \<rparr>"

definition set' :: "env \<Rightarrow> FontCache \<Rightarrow> int \<Rightarrow> fsys \<Rightarrow> string \<Rightarrow> OptimizationResult \<Rightarrow> fsys" where
  "set' E c now fs inPath r =
     (case ensureDir fs (cacheDir c) of
        Inl e \<Rightarrow> fs
      | Inr fs1 \<Rightarrow>
          (case getFileHash E fs1 inPath of
             Inl e \<Rightarrow> fs1
           | Inr h \<Rightarrow>
               (case writeFile fs1 (cachePathOf E c inPath)
                       (JSON_stringify E (makeEntry h now r)) of
                  Inl e \<Rightarrow> fs1
                | Inr fs2 \<Rightarrow> fs2)))"



record CacheStats =
  entries :: nat
  totalSize :: int
  oldestEntry :: jsnumber
  newestEntry :: jsnumber

definition zeroStats :: CacheStats where
  "zeroStats = \<lparr> entries = 0, totalSize = 0, oldestEntry = JsNull, newestEntry = JsNull \<rparr>"

text \<open>
  Reading one entry file and its timestamp, as the inner \<^verbatim>\<open>try\<close> blocks of
  \<^verbatim>\<open>getStats\<close> and \<^verbatim>\<open>cleanOld\<close> do.
\<close>

definition readTimestamp :: "env \<Rightarrow> fsys \<Rightarrow> string \<Rightarrow> exn + jsnumber" where
  "readTimestamp E fs filePath =
     (case readFile fs filePath of Inl e \<Rightarrow> Inl e | Inr data \<Rightarrow> JSON_timestamp E data)"

text \<open>
  The loop of \<^verbatim>\<open>getStats\<close>: \<^verbatim>\<open>fs.stat\<close> is outside the inner \<^verbatim>\<open>try\<close>, so its
  failure leaves the loop; a file that cannot be read or parsed keeps the bounds as they
  are.  A bound is replaced when it is \<^verbatim>\<open>null\<close> or the comparison with the
  timestamp holds.
\<close>

fun getStats_loop ::
  "env \<Rightarrow> FontCache \<Rightarrow> fsys \<Rightarrow> string list \<Rightarrow> int \<times> jsnumber \<times> jsnumber
     \<Rightarrow> exn + (int \<times> jsnumber \<times> jsnumber)" where
  "getStats_loop E c fs [] acc = Inr acc"
| "getStats_loop E c fs (file # files) (tot, oldest, newest) =
     (if \<not> endsWith file ''.json'' then getStats_loop E c fs files (tot, oldest, newest)
      else (case stat fs (path_join (cacheDir c) file) of
              Inl e \<Rightarrow> Inl e
            | Inr stats \<Rightarrow>
                (case readTimestamp E fs (path_join (cacheDir c) file) of
                   Inl e \<Rightarrow> getStats_loop E c fs files (tot + stat_size stats, oldest, newest)
                 | Inr ts \<Rightarrow>
                     getStats_loop E c fs files
                       (tot + stat_size stats,
                        (if oldest = JsNull \<or> jsLess ts oldest then ts else oldest),
                        (if newest = JsNull \<or> jsLess newest ts then ts else newest)))))"

definition getStats :: "env \<Rightarrow> FontCache \<Rightarrow> fsys \<Rightarrow> CacheStats" where
  "getStats E c fs =
     (if \<not> fileExists fs (cacheDir c) then zeroStats
      else (case readdir fs (cacheDir c) of
              Inl e \<Rightarrow> zeroStats
            | Inr files \<Rightarrow>
                (case getStats_loop E c fs files (0, JsNull, JsNull) of
                   Inl e \<Rightarrow> zeroStats
                 | Inr (tot, oldest, newest) \<Rightarrow>
                     \<lparr> entries = length (filter (\<lambda>f. endsWith f ''.json'') files),
                       totalSize = tot,
                       oldestEntry = oldest,
                       newestEntry = newest \<rparr>)))"

text \<open>
  The loop of \<^verbatim>\<open>cleanOld\<close>: everything that can throw is inside the inner
  \<^verbatim>\<open>try\<close>.  \<open>olderThan\<close> is the test \<^verbatim>\<open>now - entry.timestamp > maxAgeMs\<close>.
\<close>

definition olderThan :: "int \<Rightarrow> int \<Rightarrow> jsnumber \<Rightarrow> bool" where
  "olderThan now maxAgeMs ts =
     (case toNumber ts of None \<Rightarrow> False | Some t \<Rightarrow> now - t > maxAgeMs)"

fun cleanOld_loop ::
  "env \<Rightarrow> FontCache \<Rightarrow> int \<Rightarrow> int \<Rightarrow> fsys \<Rightarrow> string list \<Rightarrow> nat \<Rightarrow> fsys \<times> nat" where
  "cleanOld_loop E c now maxAgeMs fs [] deletedCount = (fs, deletedCount)"
| "cleanOld_loop E c now maxAgeMs fs (file # files) deletedCount =
     (if \<not> endsWith file ''.json'' then cleanOld_loop E c now maxAgeMs fs files deletedCount
      else (case readTimestamp E fs (path_join (cacheDir c) file) of
              Inl e \<Rightarrow> cleanOld_loop E c now maxAgeMs fs files deletedCount
            | Inr ts \<Rightarrow>
                if olderThan now maxAgeMs ts
                then (case unlink fs (path_join (cacheDir c) file) of
                        Inl e \<Rightarrow> cleanOld_loop E c now maxAgeMs fs files deletedCount
                      | Inr fs' \<Rightarrow> cleanOld_loop E c now maxAgeMs fs' files (deletedCount + 1))
                else cleanOld_loop E c now maxAgeMs fs files deletedCount))"

definition cleanOld :: "env \<Rightarrow> FontCache \<Rightarrow> int \<Rightarrow> fsys \<Rightarrow> int \<Rightarrow> fsys \<times> nat" where
  "cleanOld E c now fs maxAgeMs =
     (if \<not> fileExists fs (cacheDir c) then (fs, 0)
      else (case readdir fs (cacheDir c) of
              Inl e \<Rightarrow> (fs, 0)
            | Inr files \<Rightarrow> cleanOld_loop E c now maxAgeMs fs files 0))"

subsection \<open>The public methods with their exceptions\<close>
















section \<open>Subset configuration (\<^verbatim>\<open>src/utils/subsetConfig.ts\<close>)\<close>

text \<open>
  The Unicode ranges of \<^verbatim>\<open>SUBSET_CONFIGS\<close>, each string \<^verbatim>\<open>U+XXXX-YYYY\<close> already
  read as the pair of its bounds (a single code point is a range of one).  The table is
  a plain object, so indexing it by a property name of \<^verbatim>\<open>Object.prototype\<close> finds
  an inherited value with no \<^verbatim>\<open>unicodeRanges\<close>, and iterating over that throws.
\<close>

definition SUBSET_CONFIGS :: "(string \<times> (nat \<times> nat) list) list" where
  "SUBSET_CONFIGS =
     [(''farsi'',
        [(0x0600, 0x06FF), (0x0750, 0x077F), (0xFB50, 0xFDFF), (0xFE70, 0xFEFF),
         (0x200C, 0x200E), (0x2010, 0x2019), (0x00AB, 0x00AB), (0x00BB, 0x00BB)]),
      (''latin'', [(0x0020, 0x007E), (0x00A0, 0x00FF)]),
      (''numbers'', [(0x0030, 0x0039), (0x06F0, 0x06F9), (0x0660, 0x0669)]),
      (''punctuation'',
        [(0x0020, 0x002F), (0x003A, 0x0040), (0x005B, 0x0060), (0x007B, 0x007E),
         (0x060C, 0x060C), (0x061B, 0x061B), (0x061F, 0x061F)])]"

definition objectPrototypeKeys :: "string list" where
  "objectPrototypeKeys =
     [''constructor'', ''toString'', ''toLocaleString'', ''valueOf'', ''hasOwnProperty'',
      ''isPrototypeOf'', ''propertyIsEnumerable'', ''__proto__'', ''__defineGetter__'',
      ''__defineSetter__'', ''__lookupGetter__'', ''__lookupSetter__'']"

definition DEFAULT_SUBSETS :: "string list" where
  "DEFAULT_SUBSETS = [''farsi'', ''latin'', ''numbers'', ''punctuation'']"

definition rangeCharacters :: "nat \<times> nat \<Rightarrow> nat list" where
  "rangeCharacters r = [fst r ..< Suc (snd r)]"

fun getSubsetCharacters :: "string list \<Rightarrow> exn + nat list" where
  "getSubsetCharacters [] = Inr []"
| "getSubsetCharacters (sub # rest) =
     (case map_of SUBSET_CONFIGS sub of
        Some ranges \<Rightarrow>
          (case getSubsetCharacters rest of
             Inl e \<Rightarrow> Inl e
           | Inr cs \<Rightarrow> Inr (concat (map rangeCharacters ranges) @ cs))
      | None \<Rightarrow>
          if sub \<in> set objectPrototypeKeys then Inl TypeError
          else getSubsetCharacters rest)"

section \<open>Validation (\<^verbatim>\<open>src/validation.ts\<close>)\<close>

definition SUPPORTED_FORMATS :: "string list" where
  "SUPPORTED_FORMATS = [''.ttf'', ''.otf'', ''.woff'', ''.woff2'']"

definition SUPPORTED_OUTPUT_FORMATS :: "string list" where
  "SUPPORTED_OUTPUT_FORMATS = [''woff2'', ''woff'', ''ttf'']"

fun digit :: "nat \<Rightarrow> char" where
  "digit n = ''0123456789'' ! n"

fun show_nat :: "nat \<Rightarrow> string" where
  "show_nat n = (if n < 10 then [digit n] else show_nat (n div 10) @ [digit (n mod 10)])"

definition show_int :: "int \<Rightarrow> string" where
  "show_int i = (if i < 0 then CHR ''-'' # show_nat (nat (- i)) else show_nat (nat i))"

text \<open>
  \<^verbatim>\<open>validateOptimizationOptions\<close>.  The checks that a typed request cannot fail
  (\<^verbatim>\<open>typeof ... !== "string"\<close>, \<^verbatim>\<open>Array.isArray\<close>) have no branch; an optional
  field given as the empty string is falsy and skips its check, as in the source.  The
  warning about large files is console output only.
\<close>

definition validateOptimizationOptions :: "fsys \<Rightarrow> OptimizationOptions \<Rightarrow> exn + unit" where
  "validateOptimizationOptions fs options =
     (if inputPath options = [] then
        Inl (ValidationError ''Input path is required'' ''inputPath'')
      else if \<not> fileExists fs (inputPath options) then
        Inl (ValidationError (''Font file not found: '' @ inputPath options) ''inputPath'')
      else if toLowerCase (extname (inputPath options)) \<notin> set SUPPORTED_FORMATS then
        Inl (UnsupportedFormatError
               (''Unsupported font format: '' @ toLowerCase (extname (inputPath options))))
      else (case stat fs (inputPath options) of
        Inl e \<Rightarrow> Inl e
      | Inr stats \<Rightarrow>
          if \<not> isFile stats then
            Inl (ValidationError (''Input path is not a file: '' @ inputPath options) ''inputPath'')
          else if stat_size stats = 0 then
            Inl (InvalidFontError (''Font file is empty: '' @ inputPath options))
          else if outputDir options = [] then
            Inl (ValidationError ''Output directory is required'' ''outputDir'')
          else if format options \<noteq> None \<and> the (format options) \<noteq> []
                  \<and> the (format options) \<notin> set SUPPORTED_OUTPUT_FORMATS then
            Inl (UnsupportedFormatError (''Unsupported output format: '' @ the (format options)))
          else if OptimizationOptions.fontWeight options \<noteq> None
                  \<and> (the (OptimizationOptions.fontWeight options) < 100
                       \<or> the (OptimizationOptions.fontWeight options) > 900) then
            Inl (ValidationError
                   (''Font weight must be between 100 and 900, got: ''
                      @ show_int (the (OptimizationOptions.fontWeight options)))
                   ''fontWeight'')
          else if OptimizationOptions.fontStyle options \<noteq> None
                  \<and> the (OptimizationOptions.fontStyle options) \<noteq> []
                  \<and> the (OptimizationOptions.fontStyle options) \<notin> set [''normal'', ''italic''] then
            Inl (ValidationError
                   (''Font style must be \"normal\" or \"italic\", got: ''
                      @ the (OptimizationOptions.fontStyle options))
                   ''fontStyle'')
          else if OptimizationOptions.fontDisplay options \<noteq> None
                  \<and> the (OptimizationOptions.fontDisplay options) \<noteq> []
                  \<and> the (OptimizationOptions.fontDisplay options)
                        \<notin> set [''auto'', ''block'', ''swap'', ''fallback'', ''optional''] then
            Inl (ValidationError
                   ''Font display must be one of: auto, block, swap, fallback, optional''
                   ''fontDisplay'')
          else Inr ()))"

text \<open>
  \<^verbatim>\<open>validateFontFile\<close>: the first four bytes against the signature of the
  extension.  A buffer shorter than four bytes reads \<^verbatim>\<open>undefined\<close> and matches
  no signature.
\<close>

definition signatureOk :: "string \<Rightarrow> string \<Rightarrow> bool" where
  "signatureOk ext buffer =
     (if ext = ''.ttf'' then
        take 4 buffer = [CHR 0x00, CHR 0x01, CHR 0x00, CHR 0x00]
        \<or> take 4 buffer = [CHR 0x74, CHR 0x72, CHR 0x75, CHR 0x65]
      else if ext = ''.otf'' then take 4 buffer = [CHR 0x4f, CHR 0x54, CHR 0x54, CHR 0x4f]
      else if ext = ''.woff'' then take 4 buffer = [CHR 0x77, CHR 0x4f, CHR 0x46, CHR 0x46]
      else if ext = ''.woff2'' then take 4 buffer = [CHR 0x77, CHR 0x4f, CHR 0x46, CHR 0x32]
      else True)"

definition signatureName :: "string \<Rightarrow> string" where
  "signatureName ext =
     (if ext = ''.ttf'' then ''TTF'' else if ext = ''.otf'' then ''OTF''
      else if ext = ''.woff'' then ''WOFF'' else ''WOFF2'')"

definition validateFontFile :: "fsys \<Rightarrow> string \<Rightarrow> exn + unit" where
  "validateFontFile fs filePath =
     (case readFile fs filePath of
        Inl e \<Rightarrow> Inl e
      | Inr buffer \<Rightarrow>
          if signatureOk (toLowerCase (extname filePath)) buffer then Inr ()
          else Inl (InvalidFontError
                      (''Invalid '' @ signatureName (toLowerCase (extname filePath))
                         @ '' file signature: '' @ filePath)))"

section \<open>The optimization pipeline (the optimizer)\<close>

text \<open>
  What a call of \<^verbatim>\<open>optimizeFont\<close> can change: the filesystem, the module's
  \<^verbatim>\<open>globalCache\<close> instance, and the number of calls made to the subsetting engine.
\<close>

record world =
  filesystem :: fsys
  globalCache :: "FontCache option"
  engineCalls :: nat

definition getGlobalCache :: "FontCache option \<Rightarrow> string option \<Rightarrow> FontCache" where
  "getGlobalCache g dir =
     (if g = None \<or> (dir \<noteq> None \<and> the dir \<noteq> [] \<and> cacheDir (the g) \<noteq> the dir)
      then \<lparr> cacheDir = (case dir of None \<Rightarrow> ''./.persian-fontkit-cache'' | Some d \<Rightarrow> d) \<rparr>
      else the g)"

definition generateHash :: "env \<Rightarrow> string \<Rightarrow> string" where
  "generateHash E content = take 8 (md5 E content)"

definition generateOptimizedFilename :: "string \<Rightarrow> string \<Rightarrow> string \<Rightarrow> string" where
  "generateOptimizedFilename originalName hash ext =
     basename_ext originalName (extname originalName) @ ''-'' @ hash @ ext"

text \<open>
  \<^verbatim>\<open>calculateReduction\<close> is \<^verbatim>\<open>(((original - optimized) / original) * 100).toFixed(1)\<close>
  in double arithmetic.  Division by zero gives \<^verbatim>\<open>NaN\<close> for \<^verbatim>\<open>0 / 0\<close> and an
  infinity otherwise, and \<^verbatim>\<open>toFixed\<close> prints those by name; the rendering of a
  finite quotient is the platform's.
\<close>

definition calculateReduction :: "env \<Rightarrow> int \<Rightarrow> int \<Rightarrow> string" where
  "calculateReduction E orig opt =
     (if orig = 0
      then (if orig - opt = 0 then ''NaN''
            else if orig - opt > 0 then ''Infinity'' else ''-Infinity'')
      else toFixed1 E orig opt)"

definition getFontMetadata :: "env \<Rightarrow> fsys \<Rightarrow> string \<Rightarrow> exn + FontFileMetadata" where
  "getFontMetadata E fs filePath =
     (case stat fs filePath of
        Inl e \<Rightarrow> Inl e
      | Inr stats \<Rightarrow>
          Inr \<lparr> path = filePath,
                name = basename filePath,
                extension = extname filePath,
                size' = stat_size stats,
                sizeFormatted = formatFileSize E (stat_size stats) \<rparr>)"

definition isValidationKind :: "exn \<Rightarrow> bool" where
  "isValidationKind e =
     (case e of ValidationError m f \<Rightarrow> True
              | UnsupportedFormatError m \<Rightarrow> True
              | InvalidFontError m \<Rightarrow> True
              | _ \<Rightarrow> False)"

definition isFontOptimizationError :: "exn \<Rightarrow> bool" where
  "isFontOptimizationError e = (case e of FontOptimizationError m \<Rightarrow> True | _ \<Rightarrow> False)"

text \<open>The first \<^verbatim>\<open>try\<close> block of \<^verbatim>\<open>optimizeFont\<close> with its \<^verbatim>\<open>catch\<close>.\<close>

definition validateRequest :: "fsys \<Rightarrow> OptimizationOptions \<Rightarrow> exn + unit" where
  "validateRequest fs options =
     (case (case validateOptimizationOptions fs options of
              Inl e \<Rightarrow> Inl e
            | Inr u \<Rightarrow> validateFontFile fs (inputPath options)) of
        Inl e \<Rightarrow>
          if isValidationKind e then Inl e
          else Inl (FontOptimizationError (''Validation failed: '' @ message e))
      | Inr u \<Rightarrow> Inr ())"

text \<open>The destructuring defaults of the request.\<close>

definition weightOf :: "OptimizationOptions \<Rightarrow> int" where
  "weightOf options = (case OptimizationOptions.fontWeight options of None \<Rightarrow> 400 | Some w \<Rightarrow> w)"

definition styleOf :: "OptimizationOptions \<Rightarrow> string" where
  "styleOf options =
     (case OptimizationOptions.fontStyle options of None \<Rightarrow> ''normal'' | Some x \<Rightarrow> x)"

definition subsetsOf :: "OptimizationOptions \<Rightarrow> string list" where
  "subsetsOf options = (case subsets options of None \<Rightarrow> DEFAULT_SUBSETS | Some xs \<Rightarrow> xs)"

definition formatOf :: "OptimizationOptions \<Rightarrow> string" where
  "formatOf options = (case format options of None \<Rightarrow> ''woff2'' | Some f \<Rightarrow> f)"

definition displayOf :: "OptimizationOptions \<Rightarrow> string" where
  "displayOf options =
     (case OptimizationOptions.fontDisplay options of None \<Rightarrow> ''swap'' | Some d \<Rightarrow> d)"

definition useHashOf :: "OptimizationOptions \<Rightarrow> bool" where
  "useHashOf options = (case useHash options of None \<Rightarrow> True | Some b \<Rightarrow> b)"

definition cacheOf :: "OptimizationOptions \<Rightarrow> bool" where
  "cacheOf options = (case cache options of None \<Rightarrow> True | Some b \<Rightarrow> b)"

definition familyOf :: "OptimizationOptions \<Rightarrow> string" where
  "familyOf options =
     (case OptimizationOptions.fontFamily options of
        None \<Rightarrow> basename_ext (inputPath options) (extname (inputPath options))
      | Some f \<Rightarrow>
          if f = [] then basename_ext (inputPath options) (extname (inputPath options)) else f)"

text \<open>
  From the metadata of the original to the subset buffer: the engine is called once when
  the input and the character set are non-empty, and counted whether it succeeds or not.
\<close>

definition readAndSubset ::
  "env \<Rightarrow> OptimizationOptions \<Rightarrow> world \<Rightarrow> world \<times> (exn + FontFileMetadata \<times> string)" where
  "readAndSubset E options w =
     (case getFontMetadata E (filesystem w) (inputPath options) of
        Inl e \<Rightarrow> (w, Inl e)
      | Inr originalMeta \<Rightarrow>
          (case readFile (filesystem w) (inputPath options) of
             Inl e \<Rightarrow> (w, Inl e)
           | Inr fontBuffer \<Rightarrow>
               if fontBuffer = [] then
                 (w, Inl (FontOptimizationError ''Font file is empty or could not be read''))
               else (case getSubsetCharacters (subsetsOf options) of
                 Inl e \<Rightarrow> (w, Inl e)
               | Inr characters \<Rightarrow>
                   if characters = [] then
                     (w, Inl (FontOptimizationError
                                ''No characters to subset. Check subset configuration.''))
                   else (case subsetFont E fontBuffer characters
                                (if formatOf options = ''ttf'' then ''truetype''
                                 else formatOf options) of
                     Inl e \<Rightarrow>
                       (w\<lparr>engineCalls := engineCalls w + 1\<rparr>,
                        Inl (FontOptimizationError (''Failed to subset font: '' @ message e)))
                   | Inr subsetBuffer \<Rightarrow>
                       if subsetBuffer = [] then
                         (w\<lparr>engineCalls := engineCalls w + 1\<rparr>,
                          Inl (FontOptimizationError ''Font subsetting produced empty result''))
                       else (w\<lparr>engineCalls := engineCalls w + 1\<rparr>,
                             Inr (originalMeta, subsetBuffer))))))"

definition outputFilenameOf :: "env \<Rightarrow> OptimizationOptions \<Rightarrow> FontFileMetadata \<Rightarrow> string \<Rightarrow> string" where
  "outputFilenameOf E options originalMeta subsetBuffer =
     (if useHashOf options
      then generateOptimizedFilename (name originalMeta) (generateHash E subsetBuffer)
             (''.'' @ formatOf options)
      else basename_ext (name originalMeta) (extname (name originalMeta))
             @ ''.'' @ formatOf options)"

text \<open>Writing the artifact and describing the result.\<close>

definition writeAndDescribe ::
  "env \<Rightarrow> OptimizationOptions \<Rightarrow> FontFileMetadata \<Rightarrow> string \<Rightarrow> fsys
     \<Rightarrow> fsys \<times> (exn + OptimizationResult)" where
  "writeAndDescribe E options originalMeta subsetBuffer fs =
     (let outputFilename = outputFilenameOf E options originalMeta subsetBuffer;
          outPath = path_join (outputDir options) outputFilename
      in case writeFileBuffer fs outPath subsetBuffer of
           (fs1, Inl e) \<Rightarrow> (fs1, Inl e)
         | (fs1, Inr u) \<Rightarrow>
             (case getFontMetadata E fs1 outPath of
                Inl e \<Rightarrow> (fs1, Inl e)
              | Inr optimizedMeta \<Rightarrow>
                  (fs1,
                   Inr \<lparr> original = originalMeta,
                         optimized = optimizedMeta,
                         reduction =
                           calculateReduction E (size' originalMeta) (size' optimizedMeta),
                         css =
                           generateFontFace E
                             \<lparr> FontFaceOptions.fontFamily = familyOf options,
                               fontPath = ''./'' @ outputFilename,
                               FontFaceOptions.fontWeight = weightOf options,
                               FontFaceOptions.fontStyle = Some (styleOf options),
                               FontFaceOptions.fontDisplay = displayOf options \<rparr>,
                         fontFamily = familyOf options,
                         fontWeight = weightOf options \<rparr>)))"

text \<open>
  The second \<^verbatim>\<open>try\<close> block: the transformation, the cache write when caching is
  enabled, and the \<^verbatim>\<open>catch\<close> that wraps what is not a \<^verbatim>\<open>FontOptimizationError\<close>.
\<close>

definition wrapFailure :: "exn \<Rightarrow> exn" where
  "wrapFailure e =
     (if isFontOptimizationError e then e
      else FontOptimizationError (''Font optimization failed: '' @ message e))"

definition transform ::
  "env \<Rightarrow> int \<Rightarrow> OptimizationOptions \<Rightarrow> world \<Rightarrow> world \<times> (exn + OptimizationResult)" where
  "transform E now options w =
     (case readAndSubset E options w of
        (w1, Inl e) \<Rightarrow> (w1, Inl (wrapFailure e))
      | (w1, Inr (originalMeta, subsetBuffer)) \<Rightarrow>
          (case writeAndDescribe E options originalMeta subsetBuffer (filesystem w1) of
             (fs1, Inl e) \<Rightarrow> (w1\<lparr>filesystem := fs1\<rparr>, Inl (wrapFailure e))
           | (fs1, Inr r) \<Rightarrow>
               if cacheOf options then
                 (let fontCache = getGlobalCache (globalCache w1) (OptimizationOptions.cacheDir options)
                  in (w1\<lparr>filesystem := set' E fontCache now fs1 (inputPath options) r,
                         globalCache := Some fontCache\<rparr>,
                      Inr r))
               else (w1\<lparr>filesystem := fs1\<rparr>, Inr r)))"

definition optimizeFont ::
  "env \<Rightarrow> int \<Rightarrow> OptimizationOptions \<Rightarrow> world \<Rightarrow> world \<times> (exn + OptimizationResult)" where
  "optimizeFont E now options w =
     (case validateRequest (filesystem w) options of
        Inl e \<Rightarrow> (w, Inl e)
      | Inr u \<Rightarrow>
          if cacheOf options then
            (let fontCache = getGlobalCache (globalCache w) (OptimizationOptions.cacheDir options)
             in case get E fontCache (filesystem w) (inputPath options) of
                  (fs1, Some cached) \<Rightarrow>
                    (w\<lparr>filesystem := fs1, globalCache := Some fontCache\<rparr>, Inr cached)
                | (fs1, None) \<Rightarrow>
                    transform E now options (w\<lparr>filesystem := fs1, globalCache := Some fontCache\<rparr>))
          else transform E now options w)"

text \<open>\<^verbatim>\<open>generateOptimizedCSS\<close> and \<^verbatim>\<open>calculateAverageReduction\<close>.\<close>

definition calculateAverageReduction :: "env \<Rightarrow> OptimizationResult list \<Rightarrow> string" where
  "calculateAverageReduction E results =
     calculateReduction E
       (fold (\<lambda>r sum. sum + size' (original r)) results 0)
       (fold (\<lambda>r sum. sum + size' (optimized r)) results 0)"

definition headerComments :: "env \<Rightarrow> OptimizationResult list \<Rightarrow> string list" where
  "headerComments E results =
     [''Total fonts: '' @ show_nat (length results),
      ''Average size reduction: '' @ calculateAverageReduction E results @ ''%'']"

definition fontFaceOf :: "OptimizationResult \<Rightarrow> FontFaceOptions" where
  "fontFaceOf r =
     \<lparr> FontFaceOptions.fontFamily = fontFamily r,
       fontPath = ''./'' @ basename (path (optimized r)),
       FontFaceOptions.fontWeight = fontWeight r,
       FontFaceOptions.fontStyle = None,
       FontFaceOptions.fontDisplay = ''swap'' \<rparr>"

definition generateOptimizedCSS ::
  "env \<Rightarrow> fsys \<Rightarrow> OptimizationResult list \<Rightarrow> string \<Rightarrow> fsys \<times> (exn + unit)" where
  "generateOptimizedCSS E fs results outPath =
     writeFileBuffer fs outPath
       (generateCSSFile E (map fontFaceOf results) (headerComments E results))"

section \<open>Specification vocabulary\<close>

text \<open>
  A filesystem is \<open>healthy\<close> when no operation fails for a reason outside the table
  of nodes.  A directory is \<open>creatable\<close> when no prefix of its path is a regular
  file, so that \<^verbatim>\<open>mkdir\<close> with \<^verbatim>\<open>recursive\<close> succeeds.  Two results have the
  same scalars when they agree on the sizes, the reduction, the stylesheet fragment, the
  family and the weight.
\<close>

definition healthy :: "fsys \<Rightarrow> bool" where
  "healthy fs = (\<forall>op p. \<not> faulty fs op p)"

definition creatable :: "fsys \<Rightarrow> string \<Rightarrow> bool" where
  "creatable fs d = (d \<noteq> [] \<and> (\<forall>q \<in> set (dir_prefixes d). \<forall>b. lookup fs q \<noteq> Some (File b)))"

definition sameScalars :: "OptimizationResult \<Rightarrow> OptimizationResult \<Rightarrow> bool" where
  "sameScalars r r' =
     (size' (original r') = size' (original r) \<and> size' (optimized r') = size' (optimized r)
      \<and> reduction r' = reduction r \<and> css r' = css r
      \<and> fontFamily r' = fontFamily r \<and> fontWeight r' = fontWeight r)"

text \<open>
  An entry file is \<open>expired\<close> for \<^verbatim>\<open>cleanOld\<close> when its name ends in
  \<^verbatim>\<open>.json\<close>, it can be read and parsed, and its timestamp is a number (or
  \<^verbatim>\<open>null\<close>, counting as 0) older than \<open>now - maxAgeMs\<close>.
\<close>

definition expired :: "env \<Rightarrow> FontCache \<Rightarrow> int \<Rightarrow> int \<Rightarrow> fsys \<Rightarrow> string \<Rightarrow> bool" where
  "expired E c now maxAgeMs fs file =
     (endsWith file ''.json''
      \<and> (case readTimestamp E fs (path_join (cacheDir c) file) of
            Inl e \<Rightarrow> False
          | Inr ts \<Rightarrow> (case toNumber ts of None \<Rightarrow> False | Some t \<Rightarrow> t < now - maxAgeMs)))"

text \<open>
  A path is \<open>writable\<close> when it is not a directory and its parent directory can be
  created.
\<close>

definition writable :: "fsys \<Rightarrow> string \<Rightarrow> bool" where
  "writable fs p =
     (lookup fs p \<noteq> Some Dir \<and> (case dirname p of None \<Rightarrow> True | Some d \<Rightarrow> creatable fs d))"

text \<open>
  The cache is usable for an input path and an artifact path when the cache directory can
  be created, the name of the cache file holds no separator, and the paths involved do
  not collide: the cache file is not a directory, not the input file and not a directory
  on the way to the artifact, and the artifact is not the input file and not a directory
  on the way to the cache directory.
\<close>

definition cacheUsable :: "env \<Rightarrow> FontCache \<Rightarrow> fsys \<Rightarrow> string \<Rightarrow> string \<Rightarrow> bool" where
  "cacheUsable E c fs p out =
     (creatable fs (cacheDir c)
      \<and> sep \<notin> set (getCacheKey E p)
      \<and> lookup fs (cachePathOf E c p) \<noteq> Some Dir
      \<and> cachePathOf E c p \<noteq> p
      \<and> out \<noteq> p
      \<and> out \<notin> set (dir_prefixes (cacheDir c))
      \<and> (case dirname out of None \<Rightarrow> True
          | Some d \<Rightarrow> cachePathOf E c p \<notin> set (dir_prefixes d)))"


section \<open>Example states\<close>

text \<open>
  A small platform and small filesystems on which the theorems below are instantiated.
  The digest and \<^verbatim>\<open>path.resolve\<close> are the identity there, and the JSON codec knows
  one document that holds an entry, written \<^verbatim>\<open>{}\<close> for short and stamped 5; it
  reads \<^verbatim>\<open>[]\<close> as a value without a timestamp.
\<close>

definition result0 :: OptimizationResult where
  "result0 =
     \<lparr> original = \<lparr> path = ''font.ttf'', name = ''font.ttf'', extension = ''.ttf'',
                    size' = 1000, sizeFormatted = ''1 KB'' \<rparr>,
       optimized = \<lparr> path = ''font.woff2'', name = ''font.woff2'', extension = ''.woff2'',
                     size' = 300, sizeFormatted = ''300 B'' \<rparr>,
       reduction = ''70.0'', css = ''@font-face {}'', fontFamily = ''Test'', fontWeight = 400 \<rparr>"

definition entry0 :: CacheEntry where
  "entry0 = makeEntry ''true font'' 5 result0"

definition env0 :: env where
  "env0 =
     \<lparr> md5 = (\<lambda>s. s), resolve = (\<lambda>s. s),
       JSON_stringify = (\<lambda>e. ''{}''),
       JSON_parse = (\<lambda>s. if s = ''{}'' then Inr entry0 else Inl SyntaxError),
       JSON_timestamp =
         (\<lambda>s. if s = ''{}'' then Inr (JsNumber 5)
              else if s = ''[]'' then Inr JsUndefined
              else if s = ''null'' then Inl TypeError
              else Inl SyntaxError),
       formatFileSize = (\<lambda>n. ''? B''), toFixed1 = (\<lambda>a b. ''0.0''),
       subsetFont = (\<lambda>b cs f. Inr ''S''),
       generateFontFace = (\<lambda>f. ''@font-face {}''),
       generateCSSFile = (\<lambda>fs cs. concat cs) \<rparr>"

definition cache0 :: FontCache where
  "cache0 = \<lparr> cacheDir = ''c'' \<rparr>"

definition noFaults :: "fsop \<Rightarrow> string \<Rightarrow> bool" where
  "noFaults op p = False"

definition fs_stale :: fsys where
  "fs_stale =
     \<lparr> nodes = [(''c'', Dir), (''c/font.ttf.json'', File ''{}''), (''font.ttf'', File ''edited font''),
                (''font.woff2'', File ''S'')],
       faulty = noFaults \<rparr>"

definition fs_gone :: fsys where
  "fs_gone = \<lparr> nodes = [(''c'', Dir), (''c/font.ttf.json'', File ''{}'')], faulty = noFaults \<rparr>"

definition fs_stuck :: fsys where
  "fs_stuck = \<lparr> nodes = nodes fs_stale, faulty = (\<lambda>op p. op = Unlink) \<rparr>"

definition fs_fresh :: fsys where
  "fs_fresh = \<lparr> nodes = [(''font.ttf'', File ''true font''), (''font.woff2'', File ''S'')], faulty = noFaults \<rparr>"

definition options0 :: OptimizationOptions where
  "options0 =
     \<lparr> inputPath = ''font.ttf'', outputDir = ''out'', fontFamily = None, fontWeight = None,
       fontStyle = None, subsets = Some [''numbers''], format = None, fontDisplay = None,
       useHash = Some False, cache = None, cacheDir = Some ''c'' \<rparr>"

definition fs_empty_font :: fsys where
  "fs_empty_font = \<lparr> nodes = [(''font.ttf'', File [])], faulty = noFaults \<rparr>"

definition world_of :: "fsys \<Rightarrow> world" where
  "world_of fs = \<lparr> filesystem = fs, globalCache = None, engineCalls = 0 \<rparr>"

definition fs_font :: fsys where
  "fs_font = \<lparr> nodes = [(''font.ttf'', File ''true font'')], faulty = noFaults \<rparr>"


definition cached0 :: OptimizationResult where
  "cached0 =
     \<lparr> original = \<lparr> path = ''font.ttf'', name = ''font.ttf'', extension = ''.ttf'',
                    size' = 1000, sizeFormatted = ''? B'' \<rparr>,
       optimized = \<lparr> path = ''font.woff2'', name = ''font.woff2'', extension = ''.woff2'',
                     size' = 300, sizeFormatted = ''? B'' \<rparr>,
       reduction = ''70.0'', css = ''@font-face {}'', fontFamily = ''Test'', fontWeight = 400 \<rparr>"





definition run_result :: OptimizationResult where
  "run_result =
     \<lparr> original = \<lparr> path = ''font.ttf'', name = ''font.ttf'', extension = ''.ttf'',
                    size' = 9, sizeFormatted = ''? B'' \<rparr>,
       optimized = \<lparr> path = ''out/font.woff2'', name = ''font.woff2'', extension = ''.woff2'',
                     size' = 1, sizeFormatted = ''? B'' \<rparr>,
       reduction = ''0.0'', css = ''@font-face {}'', fontFamily = ''font'', fontWeight = 400 \<rparr>"

definition env1 :: env where
  "env1 =
     env0\<lparr>JSON_parse :=
            (\<lambda>s. if s = ''{}'' then Inr (makeEntry ''true font'' 5 run_result)
                 else Inl SyntaxError)\<rparr>"

definition heavier :: OptimizationOptions where
  "heavier =
     options0\<lparr>subsets := Some [''latin''], format := Some ''ttf'',
              OptimizationOptions.fontWeight := Some 700,
              OptimizationOptions.fontStyle := Some ''italic''\<rparr>"

definition meta0 :: FontFileMetadata where
  "meta0 = \<lparr> path = ''font.ttf'', name = ''font.ttf'', extension = ''.ttf'',
              size' = 9, sizeFormatted = ''? B'' \<rparr>"


definition fs_bare :: fsys where
  "fs_bare = \<lparr> nodes = [(''c'', Dir), (''c/a.json'', File ''[]'')], faulty = noFaults \<rparr>"





section \<open>Properties of the filesystem and the cache\<close>

lemma map_of_drop_key:
  "map_of (filter (\<lambda>(q, n). q \<noteq> p) xs) q = (if q = p then None else map_of xs q)"
  by (induction xs) auto

lemma lookup_remove: "lookup (remove p fs) q = (if q = p then None else lookup fs q)"
  by (simp add: lookup_def remove_def map_of_drop_key)

lemma lookup_store: "lookup (store p n fs) q = (if q = p then Some n else lookup fs q)"
  by (simp add: lookup_def store_def map_of_drop_key)

lemma faulty_remove: "faulty (remove p fs) = faulty fs"
  by (simp add: remove_def)

lemma faulty_store: "faulty (store p n fs) = faulty fs"
  by (simp add: store_def)

lemma mkdir_walk_ok:
  assumes "\<forall>q \<in> set qs. \<forall>b. lookup fs q \<noteq> Some (File b)"
  shows "\<exists>fs'. mkdir_walk fs qs = Inr fs' \<and> faulty fs' = faulty fs
           \<and> (\<forall>q. lookup fs' q = (if q \<in> set qs \<and> lookup fs q = None then Some Dir else lookup fs q))"
  using assms
proof (induction qs arbitrary: fs)
  case Nil
  then show ?case by simp
next
  case (Cons q qs)
  show ?case
  proof (cases "lookup fs q")
    case None
    have "\<forall>x \<in> set qs. \<forall>b. lookup (store q Dir fs) x \<noteq> Some (File b)"
      using Cons.prems by (simp add: lookup_store)
    from Cons.IH[OF this] obtain fs' where
      "mkdir_walk (store q Dir fs) qs = Inr fs'" "faulty fs' = faulty (store q Dir fs)"
      "\<forall>x. lookup fs' x = (if x \<in> set qs \<and> lookup (store q Dir fs) x = None then Some Dir else lookup (store q Dir fs) x)"
      by blast
    then show ?thesis using None by (auto simp: lookup_store faulty_store)
  next
    case (Some n)
    then have n: "n = Dir" using Cons.prems by (cases n) auto
    have "\<forall>x \<in> set qs. \<forall>b. lookup fs x \<noteq> Some (File b)" using Cons.prems by simp
    from Cons.IH[OF this] show ?thesis using Some n by auto
  qed
qed

lemma last_dir_prefixes: "p \<in> set (dir_prefixes p)"
  by (simp add: dir_prefixes_def)

lemma ensureDir_ok:
  assumes "healthy fs" "creatable fs d"
  shows "\<exists>fs'. ensureDir fs d = Inr fs' \<and> healthy fs' \<and> lookup fs' d = Some Dir
           \<and> (\<forall>q. lookup fs' q =
                  (if q \<in> set (dir_prefixes d) \<and> lookup fs q = None then Some Dir
                   else lookup fs q))"
proof -
  from assms(2) have "\<forall>q \<in> set (dir_prefixes d). \<forall>b. lookup fs q \<noteq> Some (File b)" and d: "d \<noteq> []"
    by (auto simp: creatable_def)
  from mkdir_walk_ok[OF this(1)] obtain fs' where
    w: "mkdir_walk fs (dir_prefixes d) = Inr fs'" "faulty fs' = faulty fs"
    "\<forall>q. lookup fs' q = (if q \<in> set (dir_prefixes d) \<and> lookup fs q = None then Some Dir else lookup fs q)"
    by blast
  have "lookup fs' d = Some Dir"
  proof (cases "lookup fs d")
    case None then show ?thesis using w(3) last_dir_prefixes by simp
  next
    case (Some n)
    then have "n = Dir" using assms(2) last_dir_prefixes[of d] by (cases n) (auto simp: creatable_def)
    then show ?thesis using w(3) Some by simp
  qed
  then show ?thesis using w assms(1) d
    by (auto simp: ensureDir_def mkdir_recursive_def healthy_def)
qed

lemma dirname_join:
  assumes "sep \<notin> set f" "d \<noteq> []"
  shows "dirname (path_join d f) = Some d"
proof -
  have "dropWhile (\<lambda>c. c \<noteq> sep) (rev f @ sep # rev d) = dropWhile (\<lambda>c. c \<noteq> sep) (sep # rev d)"
    using assms(1) by (intro dropWhile_append2) auto
  then have "dropWhile (\<lambda>c. c \<noteq> sep) (rev (d @ [sep] @ f)) = sep # rev d"
    by simp
  then show ?thesis using assms(2)
    by (simp add: dirname_def path_join_def Let_def del: rev_append)
qed


lemma dir_prefixes_length: "q \<in> set (dir_prefixes d) \<Longrightarrow> length q \<le> length d"
  by (auto simp: dir_prefixes_def)

lemma set_writes:
  assumes h: "healthy fs" and cr: "creatable fs (cacheDir c)"
    and key: "sep \<notin> set (getCacheKey E p)"
    and inp: "lookup fs p = Some (File b)"
    and nd: "lookup fs (cachePathOf E c p) \<noteq> Some Dir"
  shows "healthy (set' E c now fs p r)
     \<and> lookup (set' E c now fs p r) (cachePathOf E c p)
          = Some (File (JSON_stringify E (makeEntry (md5 E b) now r)))
     \<and> (\<forall>q. q \<noteq> cachePathOf E c p \<longrightarrow> lookup fs q \<noteq> None
            \<longrightarrow> lookup (set' E c now fs p r) q = lookup fs q)"
proof -
  let ?cp = "cachePathOf E c p"
  from ensureDir_ok[OF h cr] obtain fs1 where
    e: "ensureDir fs (cacheDir c) = Inr fs1" "healthy fs1" "lookup fs1 (cacheDir c) = Some Dir"
    "\<forall>q. lookup fs1 q = (if q \<in> set (dir_prefixes (cacheDir c)) \<and> lookup fs q = None then Some Dir else lookup fs q)"
    by blast
  have d: "cacheDir c \<noteq> []" using cr by (simp add: creatable_def)
  have "sep \<notin> set (getCacheKey E p @ ''.json'')" using key by (simp add: sep_def)
  then have dn: "dirname ?cp = Some (cacheDir c)"
    unfolding cachePathOf_def using d by (rule dirname_join)
  have "length ?cp > length (cacheDir c)" by (simp add: cachePathOf_def path_join_def)
  then have "?cp \<notin> set (dir_prefixes (cacheDir c))" using dir_prefixes_length by fastforce
  then have cp1: "lookup fs1 ?cp = lookup fs ?cp" using e(4) by simp
  have inp1: "lookup fs1 p = Some (File b)" using e(4) inp by simp
  have hash: "getFileHash E fs1 p = Inr (md5 E b)"
    using e(2) inp1 by (simp add: getFileHash_def readFile_def healthy_def)
  have wr: "writeFile fs1 ?cp x = Inr (store ?cp (File x) fs1)" for x
    using e(2,3) cp1 nd dn by (simp add: writeFile_def healthy_def parent_ok_def)
  have s: "set' E c now fs p r = store ?cp (File (JSON_stringify E (makeEntry (md5 E b) now r))) fs1"
    by (simp add: set'_def e(1) hash wr)
  show ?thesis using e(2,4)
    by (auto simp: s lookup_store healthy_def faulty_store)
qed

lemma get_hit:
  assumes h: "healthy fs"
    and ent: "lookup fs (cachePathOf E c p) = Some (File data)"
    and parse: "JSON_parse E data = Inr (makeEntry (md5 E b) ts r)"
    and inp: "lookup fs p = Some (File b)"
    and art: "lookup fs (path (optimized r)) \<noteq> None"
  shows "\<exists>r'. get E c fs p = (fs, Some r') \<and> sameScalars r r'"
proof -
  obtain n where n: "lookup fs (path (optimized r)) = Some n" using art by auto
  show ?thesis using h ent parse inp n
    by (simp add: get_def get_body_def fileExists_def access_def readFile_def healthy_def
        getFileHash_def makeEntry_def cacheVersion_def entryToResult_def stat_def sameScalars_def)
qed

lemma set_get_hit:
  assumes h: "healthy fs" and cr: "creatable fs (cacheDir c)"
    and key: "sep \<notin> set (getCacheKey E p)"
    and inp: "lookup fs p = Some (File b)"
    and ne: "cachePathOf E c p \<noteq> p"
    and nd: "lookup fs (cachePathOf E c p) \<noteq> Some Dir"
    and art: "lookup fs (path (optimized r)) \<noteq> None"
    and json: "JSON_parse E (JSON_stringify E (makeEntry (md5 E b) now r)) = Inr (makeEntry (md5 E b) now r)"
  shows "\<exists>r'. get E c (set' E c now fs p r) p = (set' E c now fs p r, Some r') \<and> sameScalars r r'"
proof -
  let ?fs = "set' E c now fs p r"
  note w = set_writes[OF h cr key inp nd, of now r]
  have i: "lookup ?fs p = Some (File b)" using w ne inp by auto
  have a: "lookup ?fs (path (optimized r)) \<noteq> None"
  proof (cases "path (optimized r) = cachePathOf E c p")
    case True then show ?thesis using w by simp
  next
    case False then show ?thesis using w art by auto
  qed
  show ?thesis
    using get_hit[of ?fs E c p _ b now r] w json i a by blast
qed


lemma cachePath0: "cachePathOf env0 cache0 ''font.ttf'' = ''c/font.ttf.json''"
  by (simp add: cachePathOf_def env0_def cache0_def getCacheKey_def path_join_def sep_def)

lemma healthy_stale: "healthy fs_stale"
  by (simp add: healthy_def fs_stale_def noFaults_def)

text \<open>
  C1 as stated fails: an entry whose artifact is missing is stale, yet when the input
  file is gone as well, \<^verbatim>\<open>get\<close> returns absent and keeps the entry, because
  \<^verbatim>\<open>getFileHash\<close> throws before the artifact is looked at and the \<^verbatim>\<open>catch\<close>
  deletes nothing.  The same happens when the \<^verbatim>\<open>unlink\<close> inside \<^verbatim>\<open>delete\<close>
  fails: the failure is swallowed and the stale entry stays.
\<close>

theorem get_keeps_stale_entry_when_input_is_gone:
  "cachePathOf env0 cache0 ''font.ttf'' = ''c/font.ttf.json''
   \<and> lookup fs_gone ''c/font.ttf.json'' = Some (File ''{}'')
   \<and> JSON_parse env0 ''{}'' = Inr entry0
   \<and> lookup fs_gone (outputPath (result entry0)) = None
   \<and> get env0 cache0 fs_gone ''font.ttf'' = (fs_gone, None)
   \<and> lookup (fst (get env0 cache0 fs_gone ''font.ttf'')) ''c/font.ttf.json'' = Some (File ''{}'')
   \<and> lookup fs_stuck ''c/font.ttf.json'' = Some (File ''{}'')
   \<and> lookup fs_stuck ''font.ttf'' = Some (File ''edited font'')
   \<and> md5 env0 ''edited font'' \<noteq> inputHash entry0
   \<and> get env0 cache0 fs_stuck ''font.ttf'' = (fs_stuck, None)"
proof -
  have p: "JSON_parse env0 ''{}'' = Inr entry0" "md5 env0 = (\<lambda>s. s)" by (simp_all add: env0_def)
  have e: "version entry0 = cacheVersion" "inputHash entry0 = ''true font''"
    "outputPath (result entry0) = ''font.woff2''"
    by (simp_all add: entry0_def makeEntry_def result0_def)
  have fg: "faulty fs_gone op q = False" for op q by (simp add: fs_gone_def noFaults_def)
  have lg: "lookup fs_gone ''c/font.ttf.json'' = Some (File ''{}'')"
    "lookup fs_gone ''font.ttf'' = None" "lookup fs_gone ''font.woff2'' = None"
    by (simp_all add: fs_gone_def lookup_def)
  have g: "get env0 cache0 fs_gone ''font.ttf'' = (fs_gone, None)"
    by (simp add: get_def get_body_def cachePath0 fileExists_def access_def readFile_def
        getFileHash_def Let_def fg lg p e)
  have fs: "faulty fs_stuck op q = (op = Unlink)" for op q by (simp add: fs_stuck_def)
  have ls: "lookup fs_stuck ''c/font.ttf.json'' = Some (File ''{}'')"
    "lookup fs_stuck ''font.ttf'' = Some (File ''edited font'')"
    by (simp_all add: fs_stuck_def fs_stale_def lookup_def)
  have s: "get env0 cache0 fs_stuck ''font.ttf'' = (fs_stuck, None)"
    by (simp add: get_def get_body_def delete_def cachePath0 fileExists_def access_def
        readFile_def getFileHash_def unlink_def Let_def fs ls p e)
  show ?thesis
    by (simp add: g s cachePath0 lg ls p e)
qed

text \<open>
  C1 (amended).  For an input path whose cache file holds a parseable entry that is
  stale (the digest of the input's current bytes differs from the stored one, or the
  artifact the entry names is missing), \<^verbatim>\<open>get\<close> returns absent.  On a filesystem
  without I/O faults the cache file is gone afterwards exactly when the entry has another
  version than the cache or the input path is still a regular file; in particular a stale
  entry whose input file can be read is removed.
\<close>

theorem get_removes_stale_entry:
  assumes "lookup fs (cachePathOf E c p) = Some (File data)"
    and "JSON_parse E data = Inr entry"
    and "(\<exists>b. lookup fs p = Some (File b) \<and> md5 E b \<noteq> inputHash entry)
         \<or> lookup fs (outputPath (result entry)) = None"
  shows "snd (get E c fs p) = None
       \<and> (healthy fs \<longrightarrow>
            (lookup (fst (get E c fs p)) (cachePathOf E c p) = None
             \<longleftrightarrow> version entry \<noteq> cacheVersion \<or> (\<exists>b. lookup fs p = Some (File b))))"
proof -
  have absent: "snd (get E c fs p) = None"
  proof (cases "snd (get E c fs p)")
    case None
    then show ?thesis .
  next
    case (Some r)
    then have "get E c fs p = (fst (get E c fs p), Some r)" by (metis prod.collapse)
    then have False using assms
      by (auto simp: get_def get_body_def getFileHash_def readFile_def fileExists_def access_def
          Let_def split: sum.splits if_splits option.splits node.splits)
    then show ?thesis ..
  qed
  have gone: "lookup (fst (get E c fs p)) (cachePathOf E c p) = None
              \<longleftrightarrow> version entry \<noteq> cacheVersion \<or> (\<exists>b. lookup fs p = Some (File b))"
    if "healthy fs"
    using that assms
    by (auto simp: get_def get_body_def delete_def fileExists_def access_def readFile_def
        unlink_def getFileHash_def healthy_def lookup_remove Let_def
        split: option.splits node.splits)
  show ?thesis using absent gone by blast
qed

theorem get_removes_stale_entry_witness:
  "snd (get env0 cache0 fs_stale ''font.ttf'') = None
   \<and> lookup (fst (get env0 cache0 fs_stale ''font.ttf'')) ''c/font.ttf.json'' = None
   \<and> snd (get env0 cache0 fs_gone ''font.ttf'') = None
   \<and> lookup (fst (get env0 cache0 fs_gone ''font.ttf'')) ''c/font.ttf.json'' \<noteq> None"
proof -
  have 1: "lookup fs_stale (cachePathOf env0 cache0 ''font.ttf'') = Some (File ''{}'')"
    by (simp add: cachePath0) (simp add: fs_stale_def lookup_def)
  have 2: "JSON_parse env0 ''{}'' = Inr entry0" by (simp add: env0_def)
  have 3: "lookup fs_stale ''font.ttf'' = Some (File ''edited font'')"
    by (simp add: fs_stale_def lookup_def)
  have 4: "(\<exists>b. lookup fs_stale ''font.ttf'' = Some (File b) \<and> md5 env0 b \<noteq> inputHash entry0)
           \<or> lookup fs_stale (outputPath (result entry0)) = None"
    by (simp add: 3) (simp add: env0_def entry0_def makeEntry_def)
  have 5: "lookup fs_gone (cachePathOf env0 cache0 ''font.ttf'') = Some (File ''{}'')"
    by (simp add: cachePath0) (simp add: fs_gone_def lookup_def)
  have 6: "(\<exists>b. lookup fs_gone ''font.ttf'' = Some (File b) \<and> md5 env0 b \<noteq> inputHash entry0)
           \<or> lookup fs_gone (outputPath (result entry0)) = None"
    by (simp add: fs_gone_def lookup_def entry0_def makeEntry_def result0_def)
  have 7: "healthy fs_gone" by (simp add: healthy_def fs_gone_def noFaults_def)
  have 8: "version entry0 = cacheVersion" by (simp add: entry0_def makeEntry_def)
  have 9: "lookup fs_gone ''font.ttf'' = None" by (simp add: fs_gone_def lookup_def)
  show ?thesis
    using get_removes_stale_entry[OF 1 2 4] get_removes_stale_entry[OF 5 2 6]
      healthy_stale 3 7 8 9
    by (simp add: cachePath0)
qed

text \<open>
  C2.  \<^verbatim>\<open>set\<close> followed at once by \<^verbatim>\<open>get\<close> returns a result with the scalar
  fields of the stored one, when the input file is unchanged (the cache file is not the
  input file), the artifact exists, the cache directory can be created and written, and
  the JSON codec reads back the entry it wrote.
\<close>

theorem set_get_roundtrip:
  assumes "healthy fs" and "creatable fs (cacheDir c)"
    and "sep \<notin> set (getCacheKey E p)"
    and "lookup fs p = Some (File b)"
    and "cachePathOf E c p \<noteq> p"
    and "lookup fs (cachePathOf E c p) \<noteq> Some Dir"
    and "lookup fs (path (optimized r)) \<noteq> None"
    and "JSON_parse E (JSON_stringify E (makeEntry (md5 E b) now r)) = Inr (makeEntry (md5 E b) now r)"
  shows "\<exists>r'. snd (get E c (set' E c now fs p r) p) = Some r' \<and> sameScalars r r'"
proof -
  from set_get_hit[OF assms] obtain r' where
    "get E c (set' E c now fs p r) p = (set' E c now fs p r, Some r')" "sameScalars r r'"
    by blast
  then show ?thesis by simp
qed

theorem set_get_roundtrip_witness:
  "\<exists>r'. snd (get env0 cache0 (set' env0 cache0 5 fs_fresh ''font.ttf'' result0) ''font.ttf'') = Some r'
        \<and> sameScalars result0 r'"
proof -
  have 1: "healthy fs_fresh" by (simp add: healthy_def fs_fresh_def noFaults_def)
  have 2: "creatable fs_fresh (cacheDir cache0)"
    by (simp add: creatable_def dir_prefixes_def fs_fresh_def lookup_def cache0_def)
  have 3: "sep \<notin> set (getCacheKey env0 ''font.ttf'')"
    by (simp add: getCacheKey_def env0_def sep_def)
  have 4: "lookup fs_fresh ''font.ttf'' = Some (File ''true font'')"
    by (simp add: fs_fresh_def lookup_def)
  have 5: "cachePathOf env0 cache0 ''font.ttf'' \<noteq> ''font.ttf''" by (simp add: cachePath0)
  have 6: "lookup fs_fresh (cachePathOf env0 cache0 ''font.ttf'') \<noteq> Some Dir"
    by (simp add: cachePath0) (simp add: fs_fresh_def lookup_def)
  have 7: "lookup fs_fresh (path (optimized result0)) \<noteq> None"
    by (simp add: result0_def fs_fresh_def lookup_def)
  have 8: "JSON_parse env0 (JSON_stringify env0 (makeEntry (md5 env0 ''true font'') 5 result0))
             = Inr (makeEntry (md5 env0 ''true font'') 5 result0)"
    by (simp add: env0_def entry0_def)
  show ?thesis using set_get_roundtrip[OF 1 2 3 4 5 6 7 8] .
qed

subsection \<open>Age-based cleanup\<close>

lemma path_join_inject: "path_join d f = path_join d g \<longleftrightarrow> f = g"
  by (simp add: path_join_def)

lemma readTimestamp_remove:
  "q \<noteq> p \<Longrightarrow> readTimestamp E (remove p fs) q = readTimestamp E fs q"
  by (simp add: readTimestamp_def readFile_def lookup_remove faulty_remove)

lemma expired_remove:
  "g \<noteq> f \<Longrightarrow> expired E c now m (remove (path_join (cacheDir c) f) fs) g = expired E c now m fs g"
  by (simp add: expired_def readTimestamp_remove path_join_inject)

lemma readTimestamp_file:
  "readTimestamp E fs q = Inr ts \<Longrightarrow> \<exists>b. lookup fs q = Some (File b)"
  by (auto simp: readTimestamp_def readFile_def split: if_splits option.splits node.splits)

lemma cleanOld_loop_exact:
  assumes "healthy fs" "distinct files"
  shows "\<exists>fs'. cleanOld_loop E c now m fs files n
            = (fs', n + length (filter (expired E c now m fs) files))
          \<and> healthy fs'
          \<and> (\<forall>q. lookup fs' q =
                (if \<exists>f \<in> set files. expired E c now m fs f \<and> q = path_join (cacheDir c) f
                 then None else lookup fs q))"
  using assms
proof (induction files arbitrary: fs n)
  case Nil
  then show ?case by simp
next
  case (Cons f files)
  let ?p = "path_join (cacheDir c) f"
  have d: "distinct files" "f \<notin> set files" using Cons.prems by auto
  show ?case
  proof (cases "expired E c now m fs f")
    case True
    then obtain ts t where e: "endsWith f ''.json''" "readTimestamp E fs ?p = Inr ts"
      "toNumber ts = Some t" "t < now - m"
      by (auto simp: expired_def split: sum.splits option.splits)
    from readTimestamp_file[OF e(2)] obtain b where b: "lookup fs ?p = Some (File b)" by blast
    have u: "unlink fs ?p = Inr (remove ?p fs)"
      using b Cons.prems(1) by (simp add: unlink_def healthy_def)
    have h: "healthy (remove ?p fs)" using Cons.prems(1) by (simp add: healthy_def faulty_remove)
    from Cons.IH[OF h d(1), of "n + 1"] obtain fs' where
      ih: "cleanOld_loop E c now m (remove ?p fs) files (n + 1)
             = (fs', n + 1 + length (filter (expired E c now m (remove ?p fs)) files))"
      "healthy fs'"
      "\<forall>q. lookup fs' q =
                (if \<exists>g \<in> set files. expired E c now m (remove ?p fs) g \<and> q = path_join (cacheDir c) g
                 then None else lookup (remove ?p fs) q)"
      by blast
    have eq: "\<forall>g \<in> set files. expired E c now m (remove ?p fs) g = expired E c now m fs g"
      using d(2) expired_remove by metis
    then have fl: "filter (expired E c now m (remove ?p fs)) files = filter (expired E c now m fs) files"
      by (auto intro: filter_cong)
    have 1: "cleanOld_loop E c now m fs (f # files) n
               = (fs', n + length (filter (expired E c now m fs) (f # files)))"
      using e u ih(1) True fl by (simp add: olderThan_def)
    have 2: "\<forall>q. lookup fs' q =
                (if \<exists>g \<in> set (f # files). expired E c now m fs g \<and> q = path_join (cacheDir c) g
                 then None else lookup fs q)"
      using ih(3) eq True by (auto simp: lookup_remove)
    show ?thesis using 1 2 ih(2) by blast
  next
    case False
    from Cons.IH[OF Cons.prems(1) d(1), of n] obtain fs' where
      ih: "cleanOld_loop E c now m fs files n
             = (fs', n + length (filter (expired E c now m fs) files))"
      "healthy fs'"
      "\<forall>q. lookup fs' q =
                (if \<exists>g \<in> set files. expired E c now m fs g \<and> q = path_join (cacheDir c) g
                 then None else lookup fs q)"
      by blast
    have 1: "cleanOld_loop E c now m fs (f # files) n = cleanOld_loop E c now m fs files n"
      using False by (auto simp: expired_def olderThan_def split: sum.splits option.splits)
    show ?thesis using 1 ih False by auto
  qed
qed

lemma cleanOld_loop_none:
  assumes "\<forall>f \<in> set files. \<not> expired E c now m fs f"
  shows "cleanOld_loop E c now m fs files n = (fs, n)"
  using assms
  by (induction files arbitrary: n)
     (auto simp: expired_def olderThan_def split: sum.splits option.splits)

lemma distinct_children: "distinct (children fs d)"
  by (simp add: children_def)

text \<open>
  What \<^verbatim>\<open>cleanOld\<close> does when nothing fails: on a filesystem without I/O faults
  whose cache directory exists it returns the number of expired entry files and removes
  exactly those, and every other path keeps its node.  When no entry is expired nothing
  changes and the count is zero.
\<close>

lemma cleanOld_exact:
  assumes "healthy fs" and "lookup fs (cacheDir c) = Some Dir"
  shows "snd (cleanOld E c now fs maxAgeMs)
           = length (filter (expired E c now maxAgeMs fs) (children fs (cacheDir c)))
       \<and> (\<forall>q. lookup (fst (cleanOld E c now fs maxAgeMs)) q =
             (if \<exists>f \<in> set (children fs (cacheDir c)).
                   expired E c now maxAgeMs fs f \<and> q = path_join (cacheDir c) f
              then None else lookup fs q))
       \<and> ((\<forall>f \<in> set (children fs (cacheDir c)). \<not> expired E c now maxAgeMs fs f)
            \<longrightarrow> cleanOld E c now fs maxAgeMs = (fs, 0))"
proof -
  have r: "cleanOld E c now fs maxAgeMs
             = cleanOld_loop E c now maxAgeMs fs (children fs (cacheDir c)) 0"
    using assms by (simp add: cleanOld_def fileExists_def access_def readdir_def healthy_def)
  from cleanOld_loop_exact[OF assms(1) distinct_children, where E=E and c=c and now=now and m=maxAgeMs and n=0]
  obtain fs' where
    l: "cleanOld_loop E c now maxAgeMs fs (children fs (cacheDir c)) 0
          = (fs', 0 + length (filter (expired E c now maxAgeMs fs) (children fs (cacheDir c))))"
    "\<forall>q. lookup fs' q =
          (if \<exists>f \<in> set (children fs (cacheDir c)).
                expired E c now maxAgeMs fs f \<and> q = path_join (cacheDir c) f
           then None else lookup fs q)"
    by blast
  show ?thesis using r l cleanOld_loop_none[of "children fs (cacheDir c)" E c now maxAgeMs fs 0]
    by simp
qed


lemma children_stale: "children fs_stale ''c'' = [''font.ttf.json'']"
  by (simp add: children_def fs_stale_def is_child_def sep_def)

lemma readTimestamp_stale: "readTimestamp env0 fs_stale ''c/font.ttf.json'' = Inr (JsNumber 5)"
  by (simp add: readTimestamp_def readFile_def fs_stale_def noFaults_def lookup_def env0_def)

lemma cacheDir0: "cacheDir cache0 = ''c''"
  by (simp add: cache0_def)

lemma dir_stale: "lookup fs_stale (cacheDir cache0) = Some Dir"
  by (simp add: fs_stale_def lookup_def cache0_def)

lemma join0: "path_join ''c'' ''font.ttf.json'' = ''c/font.ttf.json''"
  by (simp add: path_join_def sep_def)

lemma base_font: "basename ''font.ttf'' = ''font.ttf''" "basename ''font.woff2'' = ''font.woff2''"
  by (simp_all add: basename_def sep_def)

lemma extname_font: "extname ''font.ttf'' = ''.ttf''" "extname ''font.woff2'' = ''.woff2''"
  by (simp_all add: extname_def base_font Let_def)

lemma set_fresh:
  "set' env0 cache0 5 fs_fresh ''font.ttf'' result0
     = store ''c/font.ttf.json'' (File ''{}'') (store ''c'' Dir fs_fresh)"
proof -
  have f: "faulty fs_fresh op q = False" for op q by (simp add: fs_fresh_def noFaults_def)
  have l: "lookup fs_fresh ''c'' = None" "lookup fs_fresh ''font.ttf'' = Some (File ''true font'')"
    "lookup fs_fresh ''c/font.ttf.json'' = None"
    by (simp_all add: fs_fresh_def lookup_def)
  have e: "ensureDir fs_fresh ''c'' = Inr (store ''c'' Dir fs_fresh)"
    by (simp add: ensureDir_def mkdir_recursive_def f dir_prefixes_def l)
  have h: "getFileHash env0 (store ''c'' Dir fs_fresh) ''font.ttf'' = Inr ''true font''"
    by (simp add: getFileHash_def readFile_def faulty_store f lookup_store l env0_def)
  have d: "dirname ''c/font.ttf.json'' = Some ''c''" by (simp add: dirname_def sep_def Let_def)
  have w: "writeFile (store ''c'' Dir fs_fresh) ''c/font.ttf.json'' b
             = Inr (store ''c/font.ttf.json'' (File b) (store ''c'' Dir fs_fresh))" for b
    by (simp add: writeFile_def faulty_store f lookup_store l parent_ok_def d)
  have j: "JSON_stringify env0 x = ''{}''" for x by (simp add: env0_def)
  show ?thesis
    by (simp add: set'_def cacheDir0 e h cachePath0 w j)
qed

lemma cleanOld_after_set:
  "cleanOld env0 cache0 5 (set' env0 cache0 5 fs_fresh ''font.ttf'' result0) 0
     = (set' env0 cache0 5 fs_fresh ''font.ttf'' result0, 0)"
proof -
  let ?fs = "store ''c/font.ttf.json'' (File ''{}'') (store ''c'' Dir fs_fresh)"
  have f: "faulty ?fs op q = False" for op q
    by (simp add: faulty_store fs_fresh_def noFaults_def)
  have l: "lookup ?fs ''c'' = Some Dir" "lookup ?fs ''c/font.ttf.json'' = Some (File ''{}'')"
    by (simp_all add: lookup_store)
  have c: "children ?fs ''c'' = [''font.ttf.json'']"
    by (simp add: children_def store_def fs_fresh_def is_child_def sep_def)
  have t: "readTimestamp env0 ?fs ''c/font.ttf.json'' = Inr (JsNumber 5)"
    by (simp add: readTimestamp_def readFile_def f l) (simp add: env0_def)
  show ?thesis
    unfolding set_fresh
    by (simp add: cleanOld_def fileExists_def access_def readdir_def cacheDir0 f l c join0 t
        olderThan_def endsWith_def)
qed

lemma get_after_set:
  "snd (get env0 cache0 (set' env0 cache0 5 fs_fresh ''font.ttf'' result0) ''font.ttf'') = Some cached0"
proof -
  let ?fs = "store ''c/font.ttf.json'' (File ''{}'') (store ''c'' Dir fs_fresh)"
  have f: "faulty ?fs op q = False" for op q
    by (simp add: faulty_store fs_fresh_def noFaults_def)
  have l: "lookup ?fs ''c/font.ttf.json'' = Some (File ''{}'')"
    "lookup ?fs ''font.ttf'' = Some (File ''true font'')"
    "lookup ?fs ''font.woff2'' = Some (File ''S'')"
    by (simp_all add: lookup_store) (simp_all add: fs_fresh_def lookup_def)
  have p: "JSON_parse env0 ''{}'' = Inr entry0" "md5 env0 = (\<lambda>s. s)"
    "formatFileSize env0 = (\<lambda>n. ''? B'')" by (simp_all add: env0_def)
  have e: "version entry0 = cacheVersion" "inputHash entry0 = ''true font''"
    "outputPath (result entry0) = ''font.woff2''"
    by (simp_all add: entry0_def makeEntry_def result0_def)
  have r: "entryToResult env0 ?fs entry0 ''font.ttf'' = Inr cached0"
    by (simp add: entryToResult_def stat_def f l e p)
       (simp add: entry0_def makeEntry_def result0_def cached0_def base_font extname_font)
  show ?thesis
    unfolding set_fresh
    by (simp add: get_def get_body_def cachePath0 fileExists_def access_def readFile_def
        getFileHash_def Let_def f l p e r)
qed

text \<open>
  C9.  The code misses what the claim, and the repository's own test, say of
  \<^verbatim>\<open>cleanOld(0)\<close>.  The test stores an entry and at once expects \<^verbatim>\<open>cleanOld(0)\<close>
  to delete it (\<^verbatim>\<open>Clean entries older than 0ms (all entries)\<close>, count 1, and a
  following \<^verbatim>\<open>get\<close> returning \<^verbatim>\<open>null\<close>).  When the clock has not advanced between
  the two calls (both read 5 here), the test \<^verbatim>\<open>now - entry.timestamp > maxAgeMs\<close> is
  \<^verbatim>\<open>0 > 0\<close>: nothing is deleted, the count is 0 and \<^verbatim>\<open>get\<close> still finds the entry.
  So it is for any entry stamped in the millisecond of the call; one millisecond later the
  same call deletes the entry and returns 1.
\<close>

theorem cleanOld_zero_keeps_entry_stamped_now:
  "snd (cleanOld env0 cache0 5 (set' env0 cache0 5 fs_fresh ''font.ttf'' result0) 0) = 0
   \<and> snd (get env0 cache0
            (fst (cleanOld env0 cache0 5 (set' env0 cache0 5 fs_fresh ''font.ttf'' result0) 0))
            ''font.ttf'') = Some cached0
   \<and> readTimestamp env0 fs_stale ''c/font.ttf.json'' = Inr (JsNumber 5)
   \<and> snd (cleanOld env0 cache0 5 fs_stale 0) = 0
   \<and> readTimestamp env0 (fst (cleanOld env0 cache0 5 fs_stale 0)) ''c/font.ttf.json''
       = Inr (JsNumber 5)
   \<and> snd (cleanOld env0 cache0 6 fs_stale 0) = 1
   \<and> lookup (fst (cleanOld env0 cache0 6 fs_stale 0)) ''c/font.ttf.json'' = None"
proof -
  have a: "cleanOld env0 cache0 5 fs_stale 0 = (fs_stale, 0)"
    using dir_stale healthy_stale
    by (simp add: cleanOld_def fileExists_def access_def readdir_def healthy_def cacheDir0
        children_stale join0 readTimestamp_stale olderThan_def endsWith_def)
  have u: "unlink fs_stale ''c/font.ttf.json'' = Inr (remove ''c/font.ttf.json'' fs_stale)"
    by (simp add: unlink_def fs_stale_def noFaults_def lookup_def)
  have b: "cleanOld env0 cache0 6 fs_stale 0 = (remove ''c/font.ttf.json'' fs_stale, 1)"
    using dir_stale healthy_stale
    by (simp add: cleanOld_def fileExists_def access_def readdir_def healthy_def cacheDir0
        children_stale join0 readTimestamp_stale olderThan_def endsWith_def u)
  show ?thesis
    by (simp add: cleanOld_after_set get_after_set a b readTimestamp_stale lookup_remove)
qed

subsection \<open>Validation comes first\<close>

lemma extname_empty: "extname [] = []"
  by (simp add: extname_def basename_def)

lemma ext_nonempty:
  "toLowerCase (extname p) \<in> set SUPPORTED_FORMATS \<Longrightarrow> p \<noteq> []"
  by (auto simp: extname_empty toLowerCase_def SUPPORTED_FORMATS_def)

text \<open>
  C6.  A request whose input file has a recognised extension and holds no bytes is
  rejected by \<^verbatim>\<open>optimizeFont\<close> with the invalid-font error of the validation step,
  whatever its other fields are.  The world is returned as it was: the cache was not
  consulted, the engine was not called and nothing was written.
\<close>

theorem empty_font_is_invalid_font:
  assumes "lookup (filesystem w) (inputPath options) = Some (File [])"
    and "toLowerCase (extname (inputPath options)) \<in> set SUPPORTED_FORMATS"
    and "\<not> faulty (filesystem w) Access (inputPath options)"
    and "\<not> faulty (filesystem w) Stat (inputPath options)"
  shows "optimizeFont E now options w
           = (w, Inl (InvalidFontError (''Font file is empty: '' @ inputPath options)))"
  using assms ext_nonempty[OF assms(2)]
  by (simp add: optimizeFont_def validateRequest_def validateOptimizationOptions_def
      fileExists_def access_def stat_def isValidationKind_def)

text \<open>
  C7.  A request with a weight below 100 or above 900, whose input file, output
  directory and format are valid, is rejected with the validation error of field
  \<^verbatim>\<open>fontWeight\<close>, and the world is returned as it was.
\<close>

theorem weight_out_of_range_is_validation_error:
  assumes "OptimizationOptions.fontWeight options = Some wt" and "wt < 100 \<or> wt > 900"
    and "lookup (filesystem w) (inputPath options) = Some (File b)" and "b \<noteq> []"
    and "toLowerCase (extname (inputPath options)) \<in> set SUPPORTED_FORMATS"
    and "outputDir options \<noteq> []"
    and "format options = None \<or> the (format options) \<in> set SUPPORTED_OUTPUT_FORMATS"
    and "\<not> faulty (filesystem w) Access (inputPath options)"
    and "\<not> faulty (filesystem w) Stat (inputPath options)"
  shows "optimizeFont E now options w
           = (w, Inl (ValidationError
                        (''Font weight must be between 100 and 900, got: '' @ show_int wt)
                        ''fontWeight''))"
  using assms ext_nonempty[OF assms(5)]
  by (auto simp: optimizeFont_def validateRequest_def validateOptimizationOptions_def
      fileExists_def access_def stat_def isValidationKind_def)

lemma ext_font: "toLowerCase (extname ''font.ttf'') = ''.ttf''"
  by (simp add: extname_def basename_def sep_def toLowerCase_def lower_char_def Let_def)

theorem empty_font_is_invalid_font_witness:
  "optimizeFont env0 0 options0 (world_of fs_empty_font)
     = (world_of fs_empty_font, Inl (InvalidFontError ''Font file is empty: font.ttf''))"
proof -
  have 1: "lookup (filesystem (world_of fs_empty_font)) (inputPath options0) = Some (File [])"
    by (simp add: world_of_def fs_empty_font_def lookup_def options0_def)
  have 2: "toLowerCase (extname (inputPath options0)) \<in> set SUPPORTED_FORMATS"
    by (simp add: options0_def ext_font SUPPORTED_FORMATS_def)
  have 3: "\<not> faulty (filesystem (world_of fs_empty_font)) Access (inputPath options0)"
    by (simp add: world_of_def fs_empty_font_def noFaults_def)
  have 4: "\<not> faulty (filesystem (world_of fs_empty_font)) Stat (inputPath options0)"
    by (simp add: world_of_def fs_empty_font_def noFaults_def)
  show ?thesis
    using empty_font_is_invalid_font[OF 1 2 3 4, of env0 0] by (simp add: options0_def)
qed


lemma sig: "signatureOk ''.ttf'' ''true font''"
  by (simp add: signatureOk_def)

theorem weight_out_of_range_is_validation_error_witness:
  "optimizeFont env0 0 (options0\<lparr>OptimizationOptions.fontWeight := Some 1000\<rparr>) (world_of fs_font)
     = (world_of fs_font,
        Inl (ValidationError ''Font weight must be between 100 and 900, got: 1000'' ''fontWeight''))"
proof -
  let ?o = "options0\<lparr>OptimizationOptions.fontWeight := Some 1000\<rparr>"
  have 1: "OptimizationOptions.fontWeight ?o = Some 1000" by simp
  have 2: "(1000::int) < 100 \<or> (1000::int) > 900" by simp
  have 3: "lookup (filesystem (world_of fs_font)) (inputPath ?o) = Some (File ''true font'')"
    by (simp add: world_of_def fs_font_def lookup_def options0_def)
  have 4: "''true font'' \<noteq> []" by simp
  have 5: "toLowerCase (extname (inputPath ?o)) \<in> set SUPPORTED_FORMATS"
    by (simp add: options0_def ext_font SUPPORTED_FORMATS_def)
  have 6: "outputDir ?o \<noteq> []" by (simp add: options0_def)
  have 7: "format ?o = None \<or> the (format ?o) \<in> set SUPPORTED_OUTPUT_FORMATS"
    by (simp add: options0_def)
  have 8: "\<not> faulty (filesystem (world_of fs_font)) Access (inputPath ?o)"
    by (simp add: world_of_def fs_font_def noFaults_def)
  have 9: "\<not> faulty (filesystem (world_of fs_font)) Stat (inputPath ?o)"
    by (simp add: world_of_def fs_font_def noFaults_def)
  show ?thesis
    using weight_out_of_range_is_validation_error[OF 1 2 3 4 5 6 7 8 9, of env0 0]
    by (simp add: show_int_def)
qed

subsection \<open>An empty character set\<close>



lemma get_hit_keeps_fs: "get E c fs p = (fs', Some r) \<Longrightarrow> fs' = fs"
  by (auto simp: get_def get_body_def Let_def split: sum.splits if_splits)




lemma unknown_subsets_resolve_to_nothing:
  assumes "\<forall>x \<in> set xs. map_of SUBSET_CONFIGS x = None \<and> x \<notin> set objectPrototypeKeys"
  shows "getSubsetCharacters xs = Inr []"
  using assms by (induction xs) auto





lemma globalCache0: "getGlobalCache None (Some ''c'') = cache0"
  by (simp add: getGlobalCache_def cache0_def)


lemma get_no_entry:
  "lookup fs (cachePathOf E c p) = None \<Longrightarrow> get E c fs p = (fs, None)"
  by (simp add: get_def get_body_def fileExists_def access_def Let_def)



subsection \<open>The aggregate stylesheet\<close>

lemma dirname_shorter: "dirname p = Some d \<Longrightarrow> length d < length p"
proof -
  assume a: "dirname p = Some d"
  then have s: "sep \<in> set p" and d: "d = rev (drop 1 (dropWhile (\<lambda>c. c \<noteq> sep) (rev p)))"
    by (auto simp: dirname_def Let_def split: if_splits)
  have "dropWhile (\<lambda>c. c \<noteq> sep) (rev p) \<noteq> []" using s by simp
  then have "length (drop 1 (dropWhile (\<lambda>c. c \<noteq> sep) (rev p))) < length (dropWhile (\<lambda>c. c \<noteq> sep) (rev p))"
    by (cases "dropWhile (\<lambda>c. c \<noteq> sep) (rev p)") auto
  also have "\<dots> \<le> length (rev p)" by (rule length_dropWhile_le)
  finally show ?thesis using d by simp
qed

lemma writeFileBuffer_ok:
  assumes h: "healthy fs" and w: "writable fs p"
  shows "\<exists>fs'. writeFileBuffer fs p b = (fs', Inr ()) \<and> healthy fs'
           \<and> lookup fs' p = Some (File b)
           \<and> (\<forall>q. q \<noteq> p \<longrightarrow> lookup fs' q =
                 (if (\<exists>d. dirname p = Some d \<and> q \<in> set (dir_prefixes d)) \<and> lookup fs q = None
                  then Some Dir else lookup fs q))"
proof (cases "dirname p")
  case None
  then have "writeFile fs p b = Inr (store p (File b) fs)"
    using h w by (simp add: writeFile_def healthy_def writable_def parent_ok_def)
  then show ?thesis using None h
    by (simp add: writeFileBuffer_def lookup_store healthy_def faulty_store)
next
  case (Some d)
  then have cr: "creatable fs d" using w by (simp add: writable_def)
  from ensureDir_ok[OF h cr] obtain fs1 where
    e: "ensureDir fs d = Inr fs1" "healthy fs1" "lookup fs1 d = Some Dir"
    "\<forall>q. lookup fs1 q = (if q \<in> set (dir_prefixes d) \<and> lookup fs q = None then Some Dir else lookup fs q)"
    by blast
  have "p \<notin> set (dir_prefixes d)" using dirname_shorter[OF Some] dir_prefixes_length by fastforce
  then have "lookup fs1 p = lookup fs p" using e(4) by simp
  then have "writeFile fs1 p b = Inr (store p (File b) fs1)"
    using e(2,3) w Some by (simp add: writeFile_def healthy_def writable_def parent_ok_def)
  then show ?thesis using Some e
    by (simp add: writeFileBuffer_def lookup_store healthy_def faulty_store)
qed

lemma average_of_nothing: "calculateAverageReduction E [] = ''NaN''"
  by (simp add: calculateAverageReduction_def calculateReduction_def)

text \<open>
  C10.  For an empty list of results the totals are both zero, the unguarded division
  yields \<^verbatim>\<open>NaN\<close>, and the header comments handed to the stylesheet generator are
  \<^verbatim>\<open>Total fonts: 0\<close> and \<^verbatim>\<open>Average size reduction: NaN%\<close>.  The call does
  nothing but write that stylesheet, and the write succeeds wherever the output path is
  writable.
\<close>

theorem empty_results_report_NaN:
  "headerComments E [] = [''Total fonts: 0'', ''Average size reduction: NaN%'']
   \<and> generateOptimizedCSS E fs [] outPath
       = writeFileBuffer fs outPath
           (generateCSSFile E [] [''Total fonts: 0'', ''Average size reduction: NaN%''])
   \<and> (healthy fs \<and> writable fs outPath \<longrightarrow>
        (\<exists>fs'. generateOptimizedCSS E fs [] outPath = (fs', Inr ())
           \<and> lookup fs' outPath
               = Some (File (generateCSSFile E []
                               [''Total fonts: 0'', ''Average size reduction: NaN%'']))))"
proof -
  have c: "headerComments E [] = [''Total fonts: 0'', ''Average size reduction: NaN%'']"
    by (simp add: headerComments_def average_of_nothing)
  have g: "generateOptimizedCSS E fs [] outPath
       = writeFileBuffer fs outPath
           (generateCSSFile E [] [''Total fonts: 0'', ''Average size reduction: NaN%''])"
    by (simp add: generateOptimizedCSS_def c)
  show ?thesis using c g writeFileBuffer_ok[of fs outPath] by auto
qed

theorem empty_results_report_NaN_witness:
  "healthy fs_font \<and> writable fs_font ''out/fonts.css''
   \<and> (\<exists>fs'. generateOptimizedCSS env0 fs_font [] ''out/fonts.css'' = (fs', Inr ())
         \<and> lookup fs' ''out/fonts.css'' = Some (File ''Total fonts: 0Average size reduction: NaN%''))"
proof -
  have h: "healthy fs_font" by (simp add: healthy_def fs_font_def noFaults_def)
  have d: "dirname ''out/fonts.css'' = Some ''out''"
    by (simp add: dirname_def sep_def Let_def)
  have w: "writable fs_font ''out/fonts.css''"
    by (simp add: writable_def d creatable_def dir_prefixes_def) (simp add: fs_font_def lookup_def)
  have g: "generateCSSFile env0 [] [''Total fonts: 0'', ''Average size reduction: NaN%'']
             = ''Total fonts: 0Average size reduction: NaN%''"
    by (simp add: env0_def)
  show ?thesis
    using empty_results_report_NaN[of env0 fs_font "''out/fonts.css''"] h w unfolding g by blast
qed

subsection \<open>Calling the pipeline twice\<close>

lemma mkdir_walk_result:
  assumes "mkdir_walk fs qs = Inr fs'"
  shows "faulty fs' = faulty fs
       \<and> (\<forall>q. lookup fs' q = (if q \<in> set qs \<and> lookup fs q = None then Some Dir else lookup fs q))"
  using assms
proof (induction qs arbitrary: fs)
  case Nil
  then show ?case by simp
next
  case (Cons q qs)
  show ?case
  proof (cases "lookup fs q")
    case None
    then have "mkdir_walk (store q Dir fs) qs = Inr fs'" using Cons.prems by simp
    from Cons.IH[OF this] show ?thesis using None by (auto simp: lookup_store faulty_store)
  next
    case (Some n)
    then have n: "n = Dir" and "mkdir_walk fs qs = Inr fs'"
      using Cons.prems by (cases n; simp)+
    from Cons.IH[OF this(2)] show ?thesis using Some n by auto
  qed
qed

lemma ensureDir_result:
  assumes "ensureDir fs d = Inr fs'"
  shows "faulty fs' = faulty fs
       \<and> (\<forall>q. lookup fs' q = lookup fs q
              \<or> (q \<in> set (dir_prefixes d) \<and> lookup fs q = None \<and> lookup fs' q = Some Dir))"
proof (cases "mkdir_recursive fs d")
  case (Inl e)
  then have "fs' = fs" using assms by (simp add: ensureDir_def split: if_splits)
  then show ?thesis by simp
next
  case (Inr fs1)
  then have "fs' = fs1" using assms by (simp add: ensureDir_def)
  then have "mkdir_walk fs (dir_prefixes d) = Inr fs'"
    using Inr by (simp add: mkdir_recursive_def split: if_splits)
  from mkdir_walk_result[OF this] show ?thesis by auto
qed

lemma writeFile_result:
  assumes "writeFile fs p b = Inr fs'"
  shows "fs' = store p (File b) fs"
  using assms by (simp add: writeFile_def split: if_splits)

lemma writeFileBuffer_result:
  assumes "writeFileBuffer fs p b = (fs', Inr u)"
  shows "faulty fs' = faulty fs \<and> lookup fs' p = Some (File b)
       \<and> (\<forall>q. q \<noteq> p \<longrightarrow> lookup fs' q = lookup fs q
              \<or> ((\<exists>d. dirname p = Some d \<and> q \<in> set (dir_prefixes d))
                  \<and> lookup fs q = None \<and> lookup fs' q = Some Dir))"
proof (cases "dirname p")
  case None
  then have "writeFile fs p b = Inr fs'"
    using assms by (simp add: writeFileBuffer_def split: sum.splits)
  from writeFile_result[OF this] show ?thesis by (simp add: lookup_store faulty_store)
next
  case (Some d)
  then obtain fs1 where e: "ensureDir fs d = Inr fs1" and w: "writeFile fs1 p b = Inr fs'"
    using assms by (auto simp: writeFileBuffer_def split: sum.splits)
  from writeFile_result[OF w] ensureDir_result[OF e] show ?thesis using Some
    by (auto simp: lookup_store faulty_store)
qed

lemma delete_touches_only_entry:
  "faulty (delete E c fs p) = faulty fs
   \<and> (\<forall>q. q \<noteq> cachePathOf E c p \<longrightarrow> lookup (delete E c fs p) q = lookup fs q)
   \<and> (lookup (delete E c fs p) (cachePathOf E c p) = lookup fs (cachePathOf E c p)
        \<or> lookup (delete E c fs p) (cachePathOf E c p) = None)"
  by (auto simp: delete_def unlink_def lookup_remove faulty_remove Let_def
      split: option.splits node.splits)

lemma get_touches_only_entry:
  "faulty (fst (get E c fs p)) = faulty fs
   \<and> (\<forall>q. q \<noteq> cachePathOf E c p \<longrightarrow> lookup (fst (get E c fs p)) q = lookup fs q)
   \<and> (lookup (fst (get E c fs p)) (cachePathOf E c p) = lookup fs (cachePathOf E c p)
        \<or> lookup (fst (get E c fs p)) (cachePathOf E c p) = None)"
  using delete_touches_only_entry[of E c fs p]
  by (auto simp: get_def get_body_def Let_def split: sum.splits if_splits)

lemma validateRequest_cong:
  assumes f: "faulty fs' = faulty fs"
    and l: "lookup fs' (inputPath options) = lookup fs (inputPath options)"
  shows "validateRequest fs' options = validateRequest fs options"
proof -
  have x: "fileExists fs' (inputPath options) = fileExists fs (inputPath options)"
    by (simp add: fileExists_def access_def f l)
  have s: "stat fs' (inputPath options) = stat fs (inputPath options)"
    by (simp add: stat_def f l)
  have a: "validateOptimizationOptions fs' options = validateOptimizationOptions fs options"
    unfolding validateOptimizationOptions_def x s by (rule refl)
  have b: "validateFontFile fs' (inputPath options) = validateFontFile fs (inputPath options)"
    by (simp add: validateFontFile_def readFile_def f l)
  show ?thesis unfolding validateRequest_def a b by (rule refl)
qed

lemma validateRequest_input:
  assumes "validateRequest fs options = Inr ()"
  shows "\<exists>b. lookup fs (inputPath options) = Some (File b)"
proof -
  have "validateFontFile fs (inputPath options) = Inr ()"
    using assms by (auto simp: validateRequest_def split: sum.splits if_splits)
  then obtain b where "readFile fs (inputPath options) = Inr b"
    by (auto simp: validateFontFile_def split: sum.splits)
  then show ?thesis
    by (auto simp: readFile_def split: if_splits option.splits node.splits)
qed

lemma getGlobalCache_idem:
  "getGlobalCache (Some (getGlobalCache g d)) d = getGlobalCache g d"
  by (auto simp: getGlobalCache_def split: option.splits)

lemma readAndSubset_success:
  assumes "readAndSubset E options w = (wa, Inr x)"
  shows "wa = w\<lparr>engineCalls := engineCalls w + 1\<rparr>"
  using assms
  by (auto simp: readAndSubset_def split: sum.splits if_splits)

lemma writeAndDescribe_success:
  assumes "writeAndDescribe E options om sb fs = (fsA, Inr r)"
  shows "writeFileBuffer fs (path (optimized r)) sb = (fsA, Inr ())"
  using assms
  by (auto simp: writeAndDescribe_def getFontMetadata_def Let_def
      split: sum.splits prod.splits)

lemma transform_success:
  assumes "transform E now options w = (w1, Inr r)" and "cacheOf options"
  shows "\<exists>fsA sb. writeFileBuffer (filesystem w) (path (optimized r)) sb = (fsA, Inr ())
     \<and> filesystem w1
          = set' E (getGlobalCache (globalCache w) (OptimizationOptions.cacheDir options)) now fsA
              (inputPath options) r
     \<and> globalCache w1
          = Some (getGlobalCache (globalCache w) (OptimizationOptions.cacheDir options))
     \<and> engineCalls w1 = engineCalls w + 1"
proof -
  obtain wa x where ra: "readAndSubset E options w = (wa, x)"
    by (cases "readAndSubset E options w") auto
  then obtain om sb where x: "x = Inr (om, sb)"
    using assms(1) by (cases x) (auto simp: transform_def)
  have wa: "wa = w\<lparr>engineCalls := engineCalls w + 1\<rparr>"
    using readAndSubset_success ra x by blast
  obtain fsA y where wd: "writeAndDescribe E options om sb (filesystem wa) = (fsA, y)"
    by (cases "writeAndDescribe E options om sb (filesystem wa)") auto
  then have y: "y = Inr r"
    using assms ra x by (cases y) (auto simp: transform_def Let_def)
  have w1: "w1 = wa\<lparr>filesystem :=
                      set' E (getGlobalCache (globalCache wa) (OptimizationOptions.cacheDir options))
                        now fsA (inputPath options) r,
                    globalCache :=
                      Some (getGlobalCache (globalCache wa) (OptimizationOptions.cacheDir options))\<rparr>"
    using assms ra x wd y by (simp add: transform_def Let_def)
  have "writeFileBuffer (filesystem w) (path (optimized r)) sb = (fsA, Inr ())"
    using writeAndDescribe_success wd y wa by fastforce
  then show ?thesis using w1 wa by auto
qed

lemma sameScalars_refl: "sameScalars r r"
  by (simp add: sameScalars_def)

lemma second_call_hits:
  assumes h: "healthy (filesystem w)"
    and first: "optimizeFont E now o1 w = (w1, Inr r1)"
    and c1: "cacheOf o1" and c2: "cacheOf o2"
    and same_p: "inputPath o2 = inputPath o1"
    and same_d: "OptimizationOptions.cacheDir o2 = OptimizationOptions.cacheDir o1"
    and v2: "validateRequest (filesystem w) o2 = Inr ()"
    and inp: "lookup (filesystem w) (inputPath o1) = Some (File b)"
    and us: "cacheUsable E (getGlobalCache (globalCache w) (OptimizationOptions.cacheDir o1))
               (filesystem w) (inputPath o1) (path (optimized r1))"
    and json: "JSON_parse E (JSON_stringify E (makeEntry (md5 E b) now r1))
                 = Inr (makeEntry (md5 E b) now r1)"
  shows "\<exists>r2. optimizeFont E now' o2 w1 = (w1, Inr r2) \<and> sameScalars r1 r2
            \<and> engineCalls w1 \<le> engineCalls w + 1"
proof -
  let ?p = "inputPath o1"
  let ?c = "getGlobalCache (globalCache w) (OptimizationOptions.cacheDir o1)"
  let ?fs = "filesystem w"
  let ?cp = "cachePathOf E ?c ?p"
  let ?out = "path (optimized r1)"
  have v1: "validateRequest ?fs o1 = Inr ()"
    using first by (cases "validateRequest ?fs o1") (auto simp: optimizeFont_def)
  have idem: "getGlobalCache (Some ?c) (OptimizationOptions.cacheDir o2) = ?c"
    using getGlobalCache_idem same_d by simp
  obtain fsg res where g: "get E ?c ?fs ?p = (fsg, res)"
    by (cases "get E ?c ?fs ?p") auto
  have second:
    "\<exists>r2. optimizeFont E now' o2 w1 = (w1, Inr r2) \<and> sameScalars r1 r2"
    if gc: "globalCache w1 = Some ?c"
      and v: "validateRequest (filesystem w1) o2 = Inr ()"
      and hit: "get E ?c (filesystem w1) ?p = (filesystem w1, Some r2')"
      and sc: "sameScalars r1 r2'" for r2'
  proof -
    have "optimizeFont E now' o2 w1
            = (w1\<lparr>filesystem := filesystem w1, globalCache := Some ?c\<rparr>, Inr r2')"
      using v c2 gc idem hit same_p by (simp add: optimizeFont_def)
    moreover have "w1\<lparr>filesystem := filesystem w1, globalCache := Some ?c\<rparr> = w1"
      using gc by simp
    ultimately show ?thesis using sc by simp
  qed
  show ?thesis
  proof (cases res)
    case (Some r)
    have fsg: "fsg = ?fs" using get_hit_keeps_fs g Some by blast
    have w1: "w1 = w\<lparr>filesystem := ?fs, globalCache := Some ?c\<rparr>" and r: "r = r1"
      using first v1 c1 g Some fsg by (simp_all add: optimizeFont_def)
    have "\<exists>r2. optimizeFont E now' o2 w1 = (w1, Inr r2) \<and> sameScalars r1 r2"
    proof (rule second)
      show "globalCache w1 = Some ?c" by (simp add: w1)
      show "validateRequest (filesystem w1) o2 = Inr ()" using v2 by (simp add: w1)
      show "get E ?c (filesystem w1) ?p = (filesystem w1, Some r1)"
        using g Some fsg r by (simp add: w1)
      show "sameScalars r1 r1" by (rule sameScalars_refl)
    qed
    then show ?thesis by (auto simp: w1)
  next
    case None
    let ?wg = "w\<lparr>filesystem := fsg, globalCache := Some ?c\<rparr>"
    have t: "transform E now o1 ?wg = (w1, Inr r1)"
      using first v1 c1 g None by (simp add: optimizeFont_def)
    from transform_success[OF t c1] obtain fsA sb where
      wr: "writeFileBuffer fsg ?out sb = (fsA, Inr ())"
      and f1: "filesystem w1 = set' E (getGlobalCache (Some ?c) (OptimizationOptions.cacheDir o1))
                                  now fsA ?p r1"
      and g1: "globalCache w1 = Some (getGlobalCache (Some ?c) (OptimizationOptions.cacheDir o1))"
      and e1: "engineCalls w1 = engineCalls w + 1"
      by auto
    have idem1: "getGlobalCache (Some ?c) (OptimizationOptions.cacheDir o1) = ?c"
      by (rule getGlobalCache_idem)
    note gt = get_touches_only_entry[of E ?c ?fs ?p, unfolded g fst_conv]
    note wt = writeFileBuffer_result[OF wr]
    from us have cr: "creatable ?fs (cacheDir ?c)" and key: "sep \<notin> set (getCacheKey E ?p)"
      and nd: "lookup ?fs ?cp \<noteq> Some Dir" and ne: "?cp \<noteq> ?p" and op: "?out \<noteq> ?p"
      and oc: "?out \<notin> set (dir_prefixes (cacheDir ?c))"
      and co: "\<And>d. dirname ?out = Some d \<Longrightarrow> ?cp \<notin> set (dir_prefixes d)"
      by (auto simp: cacheUsable_def split: option.splits)
    have hA: "healthy fsA" using h gt wt by (simp add: healthy_def)
    have crA: "creatable fsA (cacheDir ?c)"
      unfolding creatable_def
    proof (intro conjI ballI allI)
      show "cacheDir ?c \<noteq> []" using cr by (simp add: creatable_def)
    next
      fix q bb assume q: "q \<in> set (dir_prefixes (cacheDir ?c))"
      then have qo: "q \<noteq> ?out" using oc by auto
      have "\<forall>x. lookup ?fs q \<noteq> Some (File x)" using cr q by (simp add: creatable_def)
      moreover have "lookup fsg q = lookup ?fs q \<or> lookup fsg q = None" using gt by metis
      moreover have "lookup fsA q = lookup fsg q \<or> lookup fsA q = Some Dir" using wt qo by metis
      ultimately show "lookup fsA q \<noteq> Some (File bb)" by auto
    qed
    have pg: "lookup fsg ?p = Some (File b)" using gt ne inp by metis
    have pA: "lookup fsA ?p = Some (File b)" using wt op pg by (metis option.distinct(1))
    have cpg: "lookup fsg ?cp \<noteq> Some Dir" using gt nd by (metis option.distinct(1))
    have cpA: "lookup fsA ?cp \<noteq> Some Dir"
    proof (cases "?cp = ?out")
      case True
      then show ?thesis using wt by simp
    next
      case False
      then have "lookup fsA ?cp = lookup fsg ?cp
           \<or> ((\<exists>d. dirname ?out = Some d \<and> ?cp \<in> set (dir_prefixes d))
               \<and> lookup fsg ?cp = None \<and> lookup fsA ?cp = Some Dir)"
        using wt by metis
      then show ?thesis using cpg co by auto
    qed
    have oA: "lookup fsA ?out \<noteq> None" using wt by simp
    from set_get_hit[OF hA crA key pA ne cpA oA json] obtain r2' where
      hit: "get E ?c (set' E ?c now fsA ?p r1) ?p = (set' E ?c now fsA ?p r1, Some r2')"
      and sc: "sameScalars r1 r2'"
      by blast
    note sw = set_writes[OF hA crA key pA cpA, of now r1]
    have "\<exists>r2. optimizeFont E now' o2 w1 = (w1, Inr r2) \<and> sameScalars r1 r2"
    proof (rule second)
      show "globalCache w1 = Some ?c" using g1 idem1 by simp
      have "faulty (filesystem w1) = faulty ?fs"
        using sw h by (intro ext) (simp add: f1 idem1 healthy_def)
      moreover have "lookup (filesystem w1) (inputPath o2) = lookup ?fs (inputPath o2)"
        using sw pA ne inp by (simp add: f1 idem1 same_p)
      ultimately show "validateRequest (filesystem w1) o2 = Inr ()"
        using validateRequest_cong v2 by metis
      show "get E ?c (filesystem w1) ?p = (filesystem w1, Some r2')"
        using hit by (simp add: f1 idem1)
      show "sameScalars r1 r2'" by (rule sc)
    qed
    then show ?thesis using e1 by auto
  qed
qed

lemma numbers_characters:
  "getSubsetCharacters [''numbers''] = Inr ([48..<58] @ [1776..<1786] @ [1632..<1642])"
  by (simp add: SUBSET_CONFIGS_def rangeCharacters_def objectPrototypeKeys_def)

lemma env1_fields:
  "md5 env1 = (\<lambda>s. s)" "resolve env1 = (\<lambda>s. s)" "JSON_stringify env1 = (\<lambda>e. ''{}'')"
  "formatFileSize env1 = (\<lambda>n. ''? B'')" "toFixed1 env1 = (\<lambda>a b. ''0.0'')"
  "subsetFont env1 = (\<lambda>b cs f. Inr ''S'')" "generateFontFace env1 = (\<lambda>f. ''@font-face {}'')"
  "JSON_parse env1 ''{}'' = Inr (makeEntry ''true font'' 5 run_result)"
  by (simp_all add: env1_def env0_def)

lemma cachePath1: "cachePathOf env1 cache0 ''font.ttf'' = ''c/font.ttf.json''"
  by (simp add: cachePathOf_def env1_fields cache0_def getCacheKey_def path_join_def sep_def)

lemma fs_font_lookup:
  "lookup fs_font ''font.ttf'' = Some (File ''true font'')"
  "lookup fs_font ''c/font.ttf.json'' = None"
  "lookup fs_font ''c'' = None" "lookup fs_font ''out'' = None"
  "lookup fs_font ''out/font.woff2'' = None"
  by (simp_all add: fs_font_def lookup_def)

lemma fs_font_healthy: "healthy fs_font"
  by (simp add: healthy_def fs_font_def noFaults_def)

lemma options0_fields:
  "inputPath options0 = ''font.ttf''" "outputDir options0 = ''out''"
  "cacheOf options0" "OptimizationOptions.cacheDir options0 = Some ''c''"
  "subsetsOf options0 = [''numbers'']" "formatOf options0 = ''woff2''"
  "\<not> useHashOf options0" "weightOf options0 = 400" "styleOf options0 = ''normal''"
  "displayOf options0 = ''swap''"
  by (simp_all add: options0_def cacheOf_def subsetsOf_def formatOf_def useHashOf_def
      weightOf_def styleOf_def displayOf_def)

lemma family0: "familyOf options0 = ''font''"
  by (simp add: familyOf_def options0_def basename_ext_def base_font extname_font)

lemma validate_options0: "validateRequest fs_font options0 = Inr ()"
  by (simp add: validateRequest_def validateOptimizationOptions_def validateFontFile_def
      options0_def fs_font_def fileExists_def access_def stat_def readFile_def
      lookup_def noFaults_def ext_font SUPPORTED_FORMATS_def signatureOk_def)

lemma readAndSubset0:
  "readAndSubset env1 options0 w
     = (if filesystem w = fs_font then (w\<lparr>engineCalls := engineCalls w + 1\<rparr>, Inr (meta0, ''S''))
        else readAndSubset env1 options0 w)"
  using fs_font_healthy
  by (simp add: readAndSubset_def getFontMetadata_def stat_def readFile_def options0_fields
      fs_font_lookup healthy_def numbers_characters env1_fields base_font extname_font meta0_def
      del: getSubsetCharacters.simps)

lemma writeAndDescribe0:
  "\<exists>fsA. writeAndDescribe env1 options0 meta0 ''S'' fs_font = (fsA, Inr run_result)"
proof -
  have n: "outputFilenameOf env1 options0 meta0 ''S'' = ''font.woff2''"
    by (simp add: outputFilenameOf_def options0_fields meta0_def basename_ext_def base_font
        extname_font)
  have j: "path_join ''out'' ''font.woff2'' = ''out/font.woff2''"
    by (simp add: path_join_def sep_def)
  have d: "dirname ''out/font.woff2'' = Some ''out''"
    by (simp add: dirname_def sep_def Let_def)
  have w: "writable fs_font ''out/font.woff2''"
    by (simp add: writable_def d creatable_def dir_prefixes_def sep_def fs_font_lookup)
  from writeFileBuffer_ok[OF fs_font_healthy w, of "''S''"] obtain fsA where
    a: "writeFileBuffer fs_font ''out/font.woff2'' ''S'' = (fsA, Inr ())" "healthy fsA"
    "lookup fsA ''out/font.woff2'' = Some (File ''S'')"
    by blast
  have b: "basename ''out/font.woff2'' = ''font.woff2''" "extname ''out/font.woff2'' = ''.woff2''"
    by (simp_all add: basename_def extname_def sep_def Let_def)
  have "writeAndDescribe env1 options0 meta0 ''S'' fs_font = (fsA, Inr run_result)"
    using a
    by (simp add: writeAndDescribe_def Let_def n j options0_fields getFontMetadata_def stat_def
        healthy_def b env1_fields calculateReduction_def family0)
       (simp add: run_result_def meta0_def)
  then show ?thesis by blast
qed

lemma first_run: "snd (optimizeFont env1 5 options0 (world_of fs_font)) = Inr run_result"
proof -
  from writeAndDescribe0 obtain fsA where
    a: "writeAndDescribe env1 options0 meta0 ''S'' fs_font = (fsA, Inr run_result)" by blast
  have g: "get env1 cache0 fs_font ''font.ttf'' = (fs_font, None)"
    by (rule get_no_entry) (simp add: cachePath1 fs_font_lookup)
  have r: "readAndSubset env1 options0
             (world_of fs_font\<lparr>filesystem := fs_font, globalCache := Some cache0\<rparr>)
           = (world_of fs_font\<lparr>filesystem := fs_font, globalCache := Some cache0,
                                engineCalls := 1\<rparr>, Inr (meta0, ''S''))"
    by (subst readAndSubset0) (simp add: world_of_def)
  show ?thesis
    by (simp add: optimizeFont_def world_of_def validate_options0 options0_fields globalCache0 g
        transform_def r[unfolded world_of_def, simplified] a Let_def)
qed

text \<open>
  C3.  With caching enabled, a successful call of \<^verbatim>\<open>optimizeFont\<close> followed by a
  second call with the same request returns a result with the same scalar fields, and the
  second call leaves the world as it found it: the engine is not called again (the first
  call made at most one call).  The filesystem has no I/O faults, the cache is usable for
  the request, and the JSON codec reads back the entry the first call wrote.
\<close>

theorem optimize_twice_hits_cache:
  assumes "healthy (filesystem w)"
    and "cacheOf options"
    and "optimizeFont E now options w = (w1, Inr r1)"
    and "lookup (filesystem w) (inputPath options) = Some (File b)"
    and "cacheUsable E (getGlobalCache (globalCache w) (OptimizationOptions.cacheDir options))
           (filesystem w) (inputPath options) (path (optimized r1))"
    and "JSON_parse E (JSON_stringify E (makeEntry (md5 E b) now r1))
           = Inr (makeEntry (md5 E b) now r1)"
  shows "\<exists>r2. optimizeFont E now' options w1 = (w1, Inr r2) \<and> sameScalars r1 r2
            \<and> engineCalls w1 \<le> engineCalls w + 1"
proof -
  have "validateRequest (filesystem w) options = Inr ()"
    using assms(3)
    by (cases "validateRequest (filesystem w) options") (auto simp: optimizeFont_def)
  then show ?thesis
    using second_call_hits[OF assms(1) assms(3) assms(2) assms(2) refl refl _ assms(4,5,6)]
    by blast
qed

text \<open>
  C4.  The cache key is the digest of the resolved input path and nothing else.  After a
  successful call with caching enabled, a second call for the same input whose subsets,
  format, weight and style are replaced by any values that pass validation returns a
  result with the scalar fields of the first call's result, so computed under the first
  call's parameters, and changes nothing.
\<close>

theorem cached_result_ignores_changed_parameters:
  assumes "healthy (filesystem w)"
    and "cacheOf options"
    and "optimizeFont E now options w = (w1, Inr r1)"
    and "lookup (filesystem w) (inputPath options) = Some (File b)"
    and "cacheUsable E (getGlobalCache (globalCache w) (OptimizationOptions.cacheDir options))
           (filesystem w) (inputPath options) (path (optimized r1))"
    and "JSON_parse E (JSON_stringify E (makeEntry (md5 E b) now r1))
           = Inr (makeEntry (md5 E b) now r1)"
    and "validateRequest (filesystem w)
           (options\<lparr>subsets := s, format := f, OptimizationOptions.fontWeight := wt,
                    OptimizationOptions.fontStyle := st\<rparr>) = Inr ()"
  shows "getCacheKey E
           (inputPath (options\<lparr>subsets := s, format := f, OptimizationOptions.fontWeight := wt,
                               OptimizationOptions.fontStyle := st\<rparr>))
           = md5 E (resolve E (inputPath options))
       \<and> (\<exists>r2. optimizeFont E now'
                  (options\<lparr>subsets := s, format := f, OptimizationOptions.fontWeight := wt,
                           OptimizationOptions.fontStyle := st\<rparr>) w1 = (w1, Inr r2)
               \<and> sameScalars r1 r2)"
proof -
  let ?o2 = "options\<lparr>subsets := s, format := f, OptimizationOptions.fontWeight := wt,
                     OptimizationOptions.fontStyle := st\<rparr>"
  have c2: "cacheOf ?o2" using assms(2) by (simp add: cacheOf_def)
  have p: "inputPath ?o2 = inputPath options" by simp
  have d: "OptimizationOptions.cacheDir ?o2 = OptimizationOptions.cacheDir options" by simp
  from second_call_hits[OF assms(1) assms(3) assms(2) c2 p d assms(7) assms(4,5,6)]
  show ?thesis by (auto simp: getCacheKey_def)
qed

lemma first_run_pair:
  "optimizeFont env1 5 options0 (world_of fs_font)
     = (fst (optimizeFont env1 5 options0 (world_of fs_font)), Inr run_result)"
  using first_run by (simp add: prod_eq_iff)

lemma usable0:
  "cacheUsable env1
     (getGlobalCache (globalCache (world_of fs_font)) (OptimizationOptions.cacheDir options0))
     (filesystem (world_of fs_font)) (inputPath options0) (path (optimized run_result))"
proof -
  have d: "dirname ''out/font.woff2'' = Some ''out''"
    by (simp add: dirname_def sep_def Let_def)
  show ?thesis
    by (simp add: world_of_def options0_fields globalCache0 cacheUsable_def cachePath1 cacheDir0
        creatable_def dir_prefixes_def sep_def fs_font_lookup run_result_def getCacheKey_def
        env1_fields d)
qed

lemma roundtrip1:
  "JSON_parse env1 (JSON_stringify env1 (makeEntry (md5 env1 ''true font'') 5 run_result))
     = Inr (makeEntry (md5 env1 ''true font'') 5 run_result)"
  by (simp add: env1_fields)

lemma world_font:
  "healthy (filesystem (world_of fs_font))"
  "lookup (filesystem (world_of fs_font)) (inputPath options0) = Some (File ''true font'')"
  by (simp_all add: world_of_def fs_font_healthy options0_fields fs_font_lookup)

theorem optimize_twice_hits_cache_witness:
  "\<exists>r2. optimizeFont env1 6 options0 (fst (optimizeFont env1 5 options0 (world_of fs_font)))
           = (fst (optimizeFont env1 5 options0 (world_of fs_font)), Inr r2)
        \<and> sameScalars run_result r2
        \<and> engineCalls (fst (optimizeFont env1 5 options0 (world_of fs_font)))
             \<le> engineCalls (world_of fs_font) + 1"
  using optimize_twice_hits_cache[OF world_font(1) options0_fields(3) first_run_pair
      world_font(2) usable0 roundtrip1, of 6] .

lemma validate_heavier: "validateRequest (filesystem (world_of fs_font)) heavier = Inr ()"
  by (simp add: validateRequest_def validateOptimizationOptions_def validateFontFile_def
      heavier_def options0_def world_of_def fs_font_def fileExists_def access_def stat_def
      readFile_def lookup_def noFaults_def ext_font SUPPORTED_FORMATS_def
      SUPPORTED_OUTPUT_FORMATS_def signatureOk_def)

theorem cached_result_ignores_changed_parameters_witness:
  "OptimizationOptions.fontWeight heavier = Some 700 \<and> fontWeight run_result = 400
   \<and> (\<exists>r2. optimizeFont env1 6 heavier (fst (optimizeFont env1 5 options0 (world_of fs_font)))
              = (fst (optimizeFont env1 5 options0 (world_of fs_font)), Inr r2)
           \<and> sameScalars run_result r2)"
proof -
  have w: "OptimizationOptions.fontWeight heavier = Some 700" "fontWeight run_result = 400"
    by (simp_all add: heavier_def run_result_def)
  show ?thesis
    using cached_result_ignores_changed_parameters[OF world_font(1) options0_fields(3)
        first_run_pair world_font(2) usable0 roundtrip1 validate_heavier[unfolded heavier_def],
        of 6] w
    by (simp add: heavier_def)
qed

subsection \<open>Failures inside the cache\<close>




























lemma join_ab: "path_join ''c'' ''a.json'' = ''c/a.json''" "path_join ''c'' ''b.json'' = ''c/b.json''"
  by (simp_all add: path_join_def sep_def)

lemma json_names: "endsWith ''a.json'' ''.json''" "endsWith ''b.json'' ''.json''"
  "endsWith ''font.ttf.json'' ''.json''"
  by (simp_all add: endsWith_def)




lemma timestamps0:
  "JSON_timestamp env0 ''garbage'' = Inl SyntaxError" "JSON_timestamp env0 ''{}'' = Inr (JsNumber 5)"
  "JSON_timestamp env0 ''[]'' = Inr JsUndefined"
  by (simp_all add: env0_def)












text \<open>
  An entry file that parses and has no timestamp sets both bounds to \<^verbatim>\<open>undefined\<close>.
\<close>

lemma getStats_without_timestamp:
  "getStats env0 cache0 fs_bare
     = \<lparr> entries = 1, totalSize = 2, oldestEntry = JsUndefined, newestEntry = JsUndefined \<rparr>"
proof -
  have c: "children fs_bare ''c'' = [''a.json'']"
    by (simp add: children_def fs_bare_def is_child_def sep_def)
  have l: "lookup fs_bare ''c'' = Some Dir" "lookup fs_bare ''c/a.json'' = Some (File ''[]'')"
    by (simp_all add: fs_bare_def lookup_def)
  have f: "faulty fs_bare op q = False" for op q
    by (simp add: fs_bare_def noFaults_def)
  show ?thesis
    by (simp add: getStats_def fileExists_def access_def readdir_def cacheDir0 l f c json_names
        join_ab stat_def readTimestamp_def readFile_def timestamps0)
qed



end
